theory Spec2Isabelle
  imports Complex_Main
begin

section \<open>Text primitives of the Python runtime\<close>

text \<open>
  Strings are byte strings. The character classes below are the ASCII parts of Python's
  classes for \<open>str\<close>: a byte above 127 belongs to none of them.
\<close>

definition is_space :: "char \<Rightarrow> bool" where
  \<comment> \<open>\<open>str.isspace\<close> and the pattern \<open>\s\<close>: TAB, LF, VT, FF, CR, FS, GS, RS, US, SPACE.\<close>
  "is_space c = (let n = (of_char c :: nat) in (9 \<le> n \<and> n \<le> 13) \<or> (28 \<le> n \<and> n \<le> 32))"

definition is_digit :: "char \<Rightarrow> bool" where
  \<comment> \<open>the pattern \<open>\d\<close>\<close>
  "is_digit c = (let n = (of_char c :: nat) in 48 \<le> n \<and> n \<le> 57)"

definition is_word :: "char \<Rightarrow> bool" where
  \<comment> \<open>the pattern \<open>\w\<close>: letters, digits and the underscore\<close>
  "is_word c = (let n = (of_char c :: nat) in
     (48 \<le> n \<and> n \<le> 57) \<or> (65 \<le> n \<and> n \<le> 90) \<or> n = 95 \<or> (97 \<le> n \<and> n \<le> 122))"

definition is_digit_or_dot :: "char \<Rightarrow> bool" where
  \<comment> \<open>the character set \<open>[\d.]\<close>\<close>
  "is_digit_or_dot c = (is_digit c \<or> c = CHR ''.'')"

definition is_linebreak :: "char \<Rightarrow> bool" where
  \<comment> \<open>the line boundaries of \<open>str.splitlines\<close> other than CR: LF, VT, FF, FS, GS, RS\<close>
  "is_linebreak c = (let n = (of_char c :: nat) in n = 10 \<or> n = 11 \<or> n = 12 \<or> (28 \<le> n \<and> n \<le> 30))"

definition startswith :: "string \<Rightarrow> string \<Rightarrow> bool" where
  "startswith s p = (take (length p) s = p)"

definition endswith :: "string \<Rightarrow> string \<Rightarrow> bool" where
  "endswith s p = (length p \<le> length s \<and> drop (length s - length p) s = p)"

fun contains :: "string \<Rightarrow> string \<Rightarrow> bool" where
  \<comment> \<open>\<open>x in s\<close> for strings: \<open>x\<close> occurs in \<open>s\<close> as a contiguous run\<close>
  "contains [] x = (x = [])"
| "contains (c # cs) x = (startswith (c # cs) x \<or> contains cs x)"

definition py_strip :: "string \<Rightarrow> string" where
  "py_strip s = rev (dropWhile is_space (rev (dropWhile is_space s)))"

fun split_acc :: "string \<Rightarrow> string \<Rightarrow> string list" where
  "split_acc cur [] = (if cur = [] then [] else [cur])"
| "split_acc cur (c # cs) =
     (if is_space c then (if cur = [] then split_acc [] cs else cur # split_acc [] cs)
      else split_acc (cur @ [c]) cs)"

definition py_split :: "string \<Rightarrow> string list" where
  \<comment> \<open>\<open>str.split()\<close> with no argument: the maximal runs of non-whitespace\<close>
  "py_split s = split_acc [] s"

fun splitlines_acc :: "string \<Rightarrow> string \<Rightarrow> string list" where
  "splitlines_acc cur [] = (if cur = [] then [] else [cur])"
| "splitlines_acc cur (c # cs) =
     (if c = CHR 0x0D then
        (case cs of
           [] \<Rightarrow> [cur]
         | d # ds \<Rightarrow> if d = CHR 0x0A then cur # splitlines_acc [] ds
                     else cur # splitlines_acc [] (d # ds))
      else if is_linebreak c then cur # splitlines_acc [] cs
      else splitlines_acc (cur @ [c]) cs)"

definition py_splitlines :: "string \<Rightarrow> string list" where
  "py_splitlines s = splitlines_acc [] s"

fun join :: "string \<Rightarrow> string list \<Rightarrow> string" where
  \<comment> \<open>\<open>sep.join(xs)\<close>\<close>
  "join sep [] = []"
| "join sep [x] = x"
| "join sep (x # y # ys) = x @ sep @ join sep (y # ys)"

subsection \<open>Exceptions\<close>

datatype exn = FileNotFoundError | CalledProcessError | TimeoutExpired | ValueError | OSError

subsection \<open>\<open>float(text)\<close> on a run of digits and dots\<close>

definition digit_val :: "char \<Rightarrow> nat" where
  "digit_val c = of_char c - 48"

definition dec :: "string \<Rightarrow> nat" where
  "dec ds = foldl (\<lambda>n c. 10 * n + digit_val c) 0 ds"

definition py_float :: "string \<Rightarrow> exn + rat" where
  \<comment> \<open>Applied only to group 1 of the match below, a non-empty run of digits and dots.
      Such a text is a float literal when it has at most one dot and at least one digit;
      otherwise \<open>float\<close> raises ValueError. The value is the exact decimal value (Python
      rounds it to the nearest double; the scores are only compared with each other, with
      the threshold and with zero).\<close>
  "py_float s =
     (let ip = takeWhile is_digit s; rest = dropWhile is_digit s in
      case rest of
        [] \<Rightarrow> if ip = [] then Inl ValueError else Inr (of_nat (dec ip))
      | c # fp \<Rightarrow>
          if c = CHR ''.'' \<and> list_all is_digit fp \<and> (ip \<noteq> [] \<or> fp \<noteq> [])
          then Inr (of_nat (dec ip) + of_nat (dec fp) / 10 ^ length fp)
          else Inl ValueError)"

subsection \<open>The pattern \<open>Overall exposure level.*?:\s+([\d.]+)\s+(\w+)\<close>\<close>

definition match_tail :: "string \<Rightarrow> (string \<times> string) option" where
  \<comment> \<open>\<open>\s+([\d.]+)\s+(\w+)\<close> at the head of the text. The three classes that follow one
      another are pairwise disjoint, so a greedy run that gives a character back leaves the
      next item on a character of the wrong class: only the maximal runs can match.\<close>
  "match_tail r =
     (let sp1 = takeWhile is_space r; r1 = dropWhile is_space r;
          g1 = takeWhile is_digit_or_dot r1; r2 = dropWhile is_digit_or_dot r1;
          sp2 = takeWhile is_space r2; r3 = dropWhile is_space r2;
          g2 = takeWhile is_word r3
      in if sp1 \<noteq> [] \<and> g1 \<noteq> [] \<and> sp2 \<noteq> [] \<and> g2 \<noteq> [] then Some (g1, g2) else None)"

fun match_colon :: "string \<Rightarrow> (string \<times> string) option" where
  \<comment> \<open>\<open>.*?:\<close> followed by the tail: the lazy star tries the nearest colon first and
      moves on over any character but LF when the tail fails there.\<close>
  "match_colon [] = None"
| "match_colon (c # cs) =
     (if c = CHR '':'' then
        (case match_tail cs of Some g \<Rightarrow> Some g | None \<Rightarrow> match_colon cs)
      else if c = CHR 0x0A then None
      else match_colon cs)"

definition match_at :: "string \<Rightarrow> (string \<times> string) option" where
  "match_at s =
     (if startswith s ''Overall exposure level''
      then match_colon (drop (length ''Overall exposure level'') s) else None)"

fun re_search :: "string \<Rightarrow> (string \<times> string) option" where
  \<comment> \<open>\<open>re.search\<close>: the match at the leftmost position that has one\<close>
  "re_search [] = match_at []"
| "re_search (c # cs) =
     (case match_at (c # cs) of Some g \<Rightarrow> Some g | None \<Rightarrow> re_search cs)"

section \<open>models.py\<close>

record HardeningOverrides =
  NoNewPrivileges :: "string option"
  IPAddressDeny :: "string option"
  IPAddressAllow :: "string option"
  PrivateTmp :: "string option"
  ProtectKernelModules :: "string option"
  ProtectKernelTunables :: "string option"
  ProtectControlGroups :: "string option"
  RestrictRealtime :: "string option"
  LockPersonality :: "string option"
  ProtectHome :: "string option"
  ProtectSystem :: "string option"
  MemoryDenyWriteExecute :: "string option"
  RestrictSUIDSGID :: "string option"

definition model_dump :: "HardeningOverrides \<Rightarrow> (string \<times> string option) list" where
  \<comment> \<open>the fields in declaration order, as \<open>model_dump\<close> yields them\<close>
  "model_dump self =
     [(''NoNewPrivileges'', NoNewPrivileges self),
      (''IPAddressDeny'', IPAddressDeny self),
      (''IPAddressAllow'', IPAddressAllow self),
      (''PrivateTmp'', PrivateTmp self),
      (''ProtectKernelModules'', ProtectKernelModules self),
      (''ProtectKernelTunables'', ProtectKernelTunables self),
      (''ProtectControlGroups'', ProtectControlGroups self),
      (''RestrictRealtime'', RestrictRealtime self),
      (''LockPersonality'', LockPersonality self),
      (''ProtectHome'', ProtectHome self),
      (''ProtectSystem'', ProtectSystem self),
      (''MemoryDenyWriteExecute'', MemoryDenyWriteExecute self),
      (''RestrictSUIDSGID'', RestrictSUIDSGID self)]"

fun exclude_none :: "(string \<times> string option) list \<Rightarrow> (string \<times> string) list" where
  "exclude_none [] = []"
| "exclude_none ((k, None) # kvs) = exclude_none kvs"
| "exclude_none ((k, Some v) # kvs) = (k, v) # exclude_none kvs"

definition config_lines :: "HardeningOverrides \<Rightarrow> string list" where
  \<comment> \<open>the list \<open>lines\<close> of \<open>to_systemd_config\<close> when its loop ends\<close>
  "config_lines self =
     ''[Service]'' # map (\<lambda>(field, v). field @ ''='' @ v) (exclude_none (model_dump self))"

definition to_systemd_config :: "HardeningOverrides \<Rightarrow> string" where
  "to_systemd_config self = join [CHR 0x0A] (config_lines self)"

record HardeningProfile =
  description :: string
  overrides :: HardeningOverrides

record ProfilesConfig =
  profiles :: "string \<rightharpoonup> HardeningProfile"
  service_mappings :: "string \<rightharpoonup> string"

record ExclusionsConfig =
  excluded_services :: "string list"
  exclusion_reasons :: "(string \<rightharpoonup> string) option"

record ServiceAnalysis =
  name :: string
  exposure_score :: "rat option"
  exposure_level :: "string option"
  is_active :: bool
  is_enabled :: bool
  suggested_profile :: "string option"

datatype error_text = Text string | Str exn
  \<comment> \<open>\<open>Str e\<close> is \<open>str(e)\<close>, the message of a caught exception\<close>

record HardeningResult =
  service_name :: string
  success :: bool
  profile_applied :: "string option"
  previous_score :: "rat option"
  new_score :: "rat option"
  rollback_performed :: bool
  error :: "error_text option"

section \<open>The machine: files, directories and external commands\<close>

text \<open>
  The world holds the regular files (path to content), the directories, and the command
  lines handed to \<open>subprocess.run\<close> so far. What an external command answers is not
  decided by the program: the environment gives, for the commands issued before and the
  command line now issued, either the exception that \<open>subprocess.run\<close> raises by itself
  (tool not found, timeout) or the completed process. External commands leave the
  files and directories of the world as they are. Printing is not modelled.
\<close>

type_synonym argv = "string list"

datatype completed = Completed (returncode: int) (stdout: string)

type_synonym environment = "argv list \<Rightarrow> argv \<Rightarrow> exn + completed"

record world =
  files :: "string \<rightharpoonup> string"
  dirs :: "string set"
  issued :: "argv list"

type_synonym 'a io = "world \<Rightarrow> (exn + 'a) \<times> world"

definition io_bind :: "'a io \<Rightarrow> ('a \<Rightarrow> 'b io) \<Rightarrow> 'b io" where
  \<comment> \<open>one statement after another inside a \<open>try\<close> block: an exception skips the rest and
      keeps the world as it was when raised\<close>
  "io_bind m f w = (case m w of (Inl e, w') \<Rightarrow> (Inl e, w') | (Inr x, w') \<Rightarrow> f x w')"

definition io_return :: "'a \<Rightarrow> 'a io" where
  "io_return x w = (Inr x, w)"

definition subprocess_run :: "environment \<Rightarrow> argv \<Rightarrow> bool \<Rightarrow> completed io" where
  \<comment> \<open>\<open>subprocess.run(argv, check=check)\<close>\<close>
  "subprocess_run env cmd check w =
     (let w' = w\<lparr>issued := issued w @ [cmd]\<rparr> in
      case env (issued w) cmd of
        Inl e \<Rightarrow> (Inl e, w')
      | Inr c \<Rightarrow> if check \<and> returncode c \<noteq> 0 then (Inl CalledProcessError, w')
                 else (Inr c, w'))"

definition path_exists :: "string \<Rightarrow> world \<Rightarrow> bool" where
  \<comment> \<open>\<open>Path.exists\<close>, for a path that names a regular file when it names anything\<close>
  "path_exists p w = (files w p \<noteq> None)"

definition copy2 :: "string \<Rightarrow> string \<Rightarrow> unit io" where
  \<comment> \<open>\<open>shutil.copy2(src, dst)\<close>, both in one directory\<close>
  "copy2 src dst w =
     (case files w src of
        None \<Rightarrow> (Inl FileNotFoundError, w)
      | Some content \<Rightarrow> (Inr (), w\<lparr>files := (files w)(dst \<mapsto> content)\<rparr>))"

definition unlink :: "string \<Rightarrow> unit io" where
  "unlink p w =
     (case files w p of
        None \<Rightarrow> (Inl FileNotFoundError, w)
      | Some _ \<Rightarrow> (Inr (), w\<lparr>files := (files w)(p := None)\<rparr>))"

definition mkdir :: "string \<Rightarrow> unit io" where
  \<comment> \<open>\<open>Path.mkdir(parents=True, exist_ok=True)\<close>\<close>
  "mkdir d w = (Inr (), w\<lparr>dirs := insert d (dirs w)\<rparr>)"

definition write_text :: "string \<Rightarrow> string \<Rightarrow> unit io" where
  \<comment> \<open>\<open>open(p, 'w')\<close> and the writes, in a directory that exists\<close>
  "write_text p content w = (Inr (), w\<lparr>files := (files w)(p \<mapsto> content)\<rparr>)"

section \<open>analyzer.py\<close>

definition list_units_cmd :: argv where
  "list_units_cmd =
     [''systemctl'', ''list-units'', ''--type=service'', ''--all'', ''--no-pager'', ''--no-legend'']"

definition security_cmd :: "string \<Rightarrow> argv" where
  "security_cmd svc = [''systemd-analyze'', ''security'', svc, ''--no-pager'']"

definition is_active_cmd :: "string \<Rightarrow> argv" where
  "is_active_cmd svc = [''systemctl'', ''is-active'', svc]"

definition is_enabled_cmd :: "string \<Rightarrow> argv" where
  "is_enabled_cmd svc = [''systemctl'', ''is-enabled'', svc]"

definition parse_services :: "string \<Rightarrow> string list" where
  \<comment> \<open>the loop over \<open>result.stdout.splitlines()\<close>\<close>
  "parse_services out =
     concat (map (\<lambda>line. case py_split line of
                            [] \<Rightarrow> []
                          | p # ps \<Rightarrow> if endswith p ''.service'' then [p] else [])
                 (py_splitlines out))"

definition get_all_services :: "environment \<Rightarrow> string list io" where
  \<comment> \<open>only \<open>subprocess.CalledProcessError\<close> is caught\<close>
  "get_all_services env w =
     (case subprocess_run env list_units_cmd True w of
        (Inr result, w') \<Rightarrow> (Inr (parse_services (stdout result)), w')
      | (Inl e, w') \<Rightarrow> if e = CalledProcessError then (Inr [], w') else (Inl e, w'))"

definition parse_exposure :: "string \<Rightarrow> exn + rat option \<times> string option" where
  \<comment> \<open>from \<open>re.search\<close> to the two assignments under \<open>if exposure_match\<close>\<close>
  "parse_exposure out =
     (case re_search out of
        None \<Rightarrow> Inr (None, None)
      | Some (g1, g2) \<Rightarrow>
          (case py_float g1 of Inl e \<Rightarrow> Inl e | Inr x \<Rightarrow> Inr (Some x, Some g2)))"

definition analyze_body :: "environment \<Rightarrow> string \<Rightarrow> ServiceAnalysis io" where
  \<comment> \<open>the \<open>try\<close> block of \<open>analyze_service\<close>\<close>
  "analyze_body env svc =
     io_bind (subprocess_run env (security_cmd svc) False) (\<lambda>result.
     io_bind (\<lambda>w. (parse_exposure (stdout result), w)) (\<lambda>(score, level).
     io_bind (subprocess_run env (is_active_cmd svc) False) (\<lambda>status_result.
     io_bind (subprocess_run env (is_enabled_cmd svc) False) (\<lambda>enabled_result.
     io_return
       \<lparr>name = svc,
        exposure_score = score,
        exposure_level = level,
        is_active = (py_strip (stdout status_result) = ''active''),
        is_enabled = (py_strip (stdout enabled_result) \<in> set [''enabled'', ''static'']),
        suggested_profile = None\<rparr>))))"

definition analyze_service :: "environment \<Rightarrow> string \<Rightarrow> world \<Rightarrow> ServiceAnalysis option \<times> world" where
  \<comment> \<open>\<open>except Exception\<close>: every exception of the block becomes the result None\<close>
  "analyze_service env svc w =
     (case analyze_body env svc w of
        (Inr a, w') \<Rightarrow> (Some a, w')
      | (Inl e, w') \<Rightarrow> (None, w'))"

definition keeps :: "ServiceAnalysis option \<Rightarrow> rat \<Rightarrow> bool" where
  \<comment> \<open>\<open>analysis and analysis.exposure_score and analysis.exposure_score >= threshold\<close>: an
      object is true, None is false, and a float is true unless it is zero\<close>
  "keeps analysis threshold =
     (case analysis of
        None \<Rightarrow> False
      | Some a \<Rightarrow>
          (case exposure_score a of
             None \<Rightarrow> False
           | Some x \<Rightarrow> x \<noteq> 0 \<and> x \<ge> threshold))"

fun analyze_each :: "environment \<Rightarrow> string list \<Rightarrow> rat \<Rightarrow> world \<Rightarrow> ServiceAnalysis list \<times> world" where
  \<comment> \<open>the \<open>for\<close> loop of \<open>get_high_exposure_services\<close>, returning \<open>high_exposure\<close>\<close>
  "analyze_each env [] threshold w = ([], w)"
| "analyze_each env (s # services) threshold w =
     (case analyze_service env s w of
        (analysis, w1) \<Rightarrow>
          (case analyze_each env services threshold w1 of
             (rest, w2) \<Rightarrow>
               (if keeps analysis threshold then the analysis # rest else rest, w2)))"

definition sort_key_of :: "ServiceAnalysis \<Rightarrow> rat" where
  \<comment> \<open>\<open>lambda x: x.exposure_score or 0\<close>\<close>
  "sort_key_of x = (case exposure_score x of None \<Rightarrow> 0 | Some v \<Rightarrow> if v = 0 then 0 else v)"

definition sorted_reverse :: "ServiceAnalysis list \<Rightarrow> ServiceAnalysis list" where
  \<comment> \<open>\<open>sorted(xs, key=..., reverse=True)\<close>: descending, equal keys in their original order\<close>
  "sorted_reverse xs = sort_key (\<lambda>x. - sort_key_of x) xs"

definition get_high_exposure_services :: "environment \<Rightarrow> rat \<Rightarrow> ServiceAnalysis list io" where
  "get_high_exposure_services env threshold w =
     (case get_all_services env w of
        (Inl e, w1) \<Rightarrow> (Inl e, w1)
      | (Inr services, w1) \<Rightarrow>
          (case analyze_each env services threshold w1 of
             (high_exposure, w2) \<Rightarrow> (Inr (sorted_reverse high_exposure), w2)))"

section \<open>hardening.py\<close>

text \<open>
  The engine after \<open>__init__\<close>: the two configurations loaded from YAML and the base
  directory of the overrides (the analyzer has no state). The fields \<open>self.profiles\<close> and
  \<open>self.exclusions\<close> are \<open>engine_profiles\<close> and \<open>engine_exclusions\<close> here, and the parameter
  \<open>service_name\<close> of the methods is \<open>svc\<close>, since \<open>profiles\<close> and \<open>service_name\<close> name record
  fields of models.py.
\<close>

record HardeningEngine =
  engine_profiles :: ProfilesConfig
  engine_exclusions :: ExclusionsConfig
  override_base :: string

fun is_excluded_loop :: "string list \<Rightarrow> string \<Rightarrow> bool" where
  "is_excluded_loop [] svc = False"
| "is_excluded_loop (pattern # patterns) svc =
     (if endswith pattern ''*'' \<and> startswith svc (butlast pattern) then True
      else if svc = pattern then True
      else is_excluded_loop patterns svc)"

definition is_excluded :: "HardeningEngine \<Rightarrow> string \<Rightarrow> bool" where
  "is_excluded self svc = is_excluded_loop (excluded_services (engine_exclusions self)) svc"

definition get_profile_for_service :: "HardeningEngine \<Rightarrow> string \<Rightarrow> string" where
  "get_profile_for_service self svc =
     (case service_mappings (engine_profiles self) svc of
        Some p \<Rightarrow> p
      | None \<Rightarrow>
          if list_ex (contains svc) [''network'', ''wpa'', ''dhcp''] then ''network_service''
          else if list_ex (contains svc) [''docker'', ''libvirt'', ''virtual'']
            then ''virtualization_service''
          else if list_ex (contains svc) [''dbus'', ''gdm'', ''login''] then ''critical_service''
          else ''system_service'')"

definition determine_profile :: "HardeningEngine \<Rightarrow> string \<Rightarrow> string option \<Rightarrow> string" where
  \<comment> \<open>\<open>if not profile_name: profile_name = self.get_profile_for_service(service_name)\<close>:
      None and the empty string are both false\<close>
  "determine_profile self svc profile_name =
     (case profile_name of
        None \<Rightarrow> get_profile_for_service self svc
      | Some p \<Rightarrow> if p = [] then get_profile_for_service self svc else p)"

definition override_dir :: "HardeningEngine \<Rightarrow> string \<Rightarrow> string" where
  \<comment> \<open>\<open>self.override_base / f"{service_name}.d"\<close>, for a service name that is one path
      component\<close>
  "override_dir self svc = override_base self @ ''/'' @ svc @ ''.d''"

definition override_file :: "HardeningEngine \<Rightarrow> string \<Rightarrow> string" where
  "override_file self svc = override_dir self svc @ ''/override.conf''"

definition backup_file_of :: "HardeningEngine \<Rightarrow> string \<Rightarrow> string" where
  "backup_file_of self svc = override_dir self svc @ ''/override.conf.backup''"

definition daemon_reload_cmd :: argv where
  "daemon_reload_cmd = [''systemctl'', ''daemon-reload'']"

definition restart_cmd :: "string \<Rightarrow> argv" where
  "restart_cmd svc = [''systemctl'', ''restart'', svc]"

definition rollback_body :: "environment \<Rightarrow> HardeningEngine \<Rightarrow> string \<Rightarrow> string option \<Rightarrow> unit io" where
  \<comment> \<open>the \<open>try\<close> block of \<open>rollback\<close>; a Path object is true, None is false\<close>
  "rollback_body env self svc backup_file =
     io_bind (\<lambda>w.
        if (case backup_file of None \<Rightarrow> False | Some b \<Rightarrow> path_exists b w)
        then copy2 (the backup_file) (override_file self svc) w
        else if path_exists (override_file self svc) w then unlink (override_file self svc) w
        else io_return () w) (\<lambda>_.
     io_bind (subprocess_run env daemon_reload_cmd True) (\<lambda>_.
     io_bind (subprocess_run env (restart_cmd svc) False) (\<lambda>_.
     io_return ())))"

definition rollback :: "environment \<Rightarrow> HardeningEngine \<Rightarrow> string \<Rightarrow> string option \<Rightarrow> world \<Rightarrow> world" where
  \<comment> \<open>\<open>except Exception\<close> only prints\<close>
  "rollback env self svc backup_file w = snd (rollback_body env self svc backup_file w)"

definition result_of :: "string \<Rightarrow> bool \<Rightarrow> HardeningResult" where
  \<comment> \<open>\<open>HardeningResult(service_name=..., success=...)\<close> with the defaults of models.py\<close>
  "result_of svc ok =
     \<lparr>service_name = svc, success = ok, profile_applied = None, previous_score = None,
      new_score = None, rollback_performed = False, error = None\<rparr>"

definition header :: "string \<Rightarrow> string" where
  "header profile_name = ''# Generated by SystemdShield - Profile: '' @ profile_name @ [CHR 0x0A]"

definition final_measure :: "environment \<Rightarrow> string \<Rightarrow> string \<Rightarrow> rat option \<Rightarrow> HardeningResult io" where
  \<comment> \<open>from \<open># Get new score\<close> to the \<open>return\<close> of the success result\<close>
  "final_measure env svc profile_name prev w =
     (case analyze_service env svc w of
        (new_analysis, w') \<Rightarrow>
          (Inr ((result_of svc True)
                 \<lparr>profile_applied := Some profile_name,
                  previous_score := prev,
                  new_score := (case new_analysis of None \<Rightarrow> None | Some a \<Rightarrow> exposure_score a)\<rparr>),
           w'))"

definition mutate :: "environment \<Rightarrow> HardeningEngine \<Rightarrow> string \<Rightarrow> string \<Rightarrow> HardeningProfile
    \<Rightarrow> ServiceAnalysis \<Rightarrow> HardeningResult io" where
  \<comment> \<open>the \<open>try\<close> block of \<open>apply_hardening\<close>\<close>
  "mutate env self svc profile_name profile initial_analysis =
     io_bind (\<lambda>w.
        if path_exists (override_file self svc) w
        then copy2 (override_file self svc) (backup_file_of self svc) w
        else io_return () w) (\<lambda>_.
     io_bind (mkdir (override_dir self svc)) (\<lambda>_.
     io_bind (write_text (override_file self svc)
                (header profile_name @ to_systemd_config (overrides profile))) (\<lambda>_.
     io_bind (subprocess_run env daemon_reload_cmd True) (\<lambda>_.
     if is_active initial_analysis then
       io_bind (subprocess_run env (restart_cmd svc) True) (\<lambda>_.
       io_bind (subprocess_run env (is_active_cmd svc) False) (\<lambda>status.
         if py_strip (stdout status) \<noteq> ''active'' then
           (\<lambda>w. (Inr ((result_of svc False)
                        \<lparr>profile_applied := Some profile_name,
                         previous_score := exposure_score initial_analysis,
                         rollback_performed := True,
                         error := Some (Text ''Service failed health check after hardening'')\<rparr>),
                  rollback env self svc (Some (backup_file_of self svc)) w))
         else final_measure env svc profile_name (exposure_score initial_analysis)))
     else final_measure env svc profile_name (exposure_score initial_analysis)))))"

definition apply_hardening :: "environment \<Rightarrow> HardeningEngine \<Rightarrow> string \<Rightarrow> string option \<Rightarrow> bool
    \<Rightarrow> world \<Rightarrow> HardeningResult \<times> world" where
  "apply_hardening env self svc profile_name dry_run w =
     (if is_excluded self svc then
        ((result_of svc False)\<lparr>error := Some (Text ''Service is in exclusion list'')\<rparr>, w)
      else
        case analyze_service env svc w of
          (None, w1) \<Rightarrow>
            ((result_of svc False)\<lparr>error := Some (Text ''Failed to analyze service'')\<rparr>, w1)
        | (Some initial_analysis, w1) \<Rightarrow>
            (let pname = determine_profile self svc profile_name in
             case profiles (engine_profiles self) pname of
               None \<Rightarrow>
                 ((result_of svc False)\<lparr>error := Some (Text (''Unknown profile: '' @ pname))\<rparr>,
                  w1)
             | Some profile \<Rightarrow>
                 if dry_run then
                   ((result_of svc True)
                      \<lparr>profile_applied := Some pname,
                       previous_score := exposure_score initial_analysis\<rparr>, w1)
                 else
                   (case mutate env self svc pname profile initial_analysis w1 of
                      (Inr r, w2) \<Rightarrow> (r, w2)
                    | (Inl e, w2) \<Rightarrow>
                        ((result_of svc False)
                           \<lparr>profile_applied := Some pname,
                            previous_score := exposure_score initial_analysis,
                            rollback_performed := True,
                            error := Some (Str e)\<rparr>,
                         rollback env self svc (Some (backup_file_of self svc)) w2))))"

section \<open>main.py\<close>

definition revert :: "environment \<Rightarrow> nat \<Rightarrow> HardeningEngine \<Rightarrow> string \<Rightarrow> world \<Rightarrow> (int + unit) \<times> world" where
  \<comment> \<open>the \<open>revert\<close> command for the effective user id and the engine built from the
      configuration: \<open>require_root\<close> exits with code 1, otherwise \<open>engine.rollback(service)\<close>\<close>
  "revert env euid engine svc w =
     (if euid \<noteq> 0 then (Inl 1, w) else (Inr (), rollback env engine svc None w))"

section \<open>The properties as the specification words them\<close>

definition claimed_match :: "string \<Rightarrow> string \<Rightarrow> bool" where
  \<comment> \<open>exclusion matching as claimed: a pattern ending in \<open>*\<close> matches by its prefix, a
      pattern with no \<open>*\<close> matches by equality, and nothing else matches\<close>
  "claimed_match pattern svc =
     ((endswith pattern ''*'' \<and> startswith svc (butlast pattern))
      \<or> (CHR ''*'' \<notin> set pattern \<and> svc = pattern))"

definition heuristic_rules :: "(string list \<times> string) list" where
  \<comment> \<open>the ordered name heuristics as the specification lists them\<close>
  "heuristic_rules =
     [([''network'', ''wpa'', ''dhcp''], ''network_service''),
      ([''docker'', ''libvirt'', ''virtual''], ''virtualization_service''),
      ([''dbus'', ''gdm'', ''login''], ''critical_service'')]"

fun first_rule :: "(string list \<times> string) list \<Rightarrow> string \<Rightarrow> string option" where
  "first_rule [] svc = None"
| "first_rule ((subs, prof) # rules) svc =
     (if \<exists>x \<in> set subs. contains svc x then Some prof else first_rule rules svc)"

definition claimed_resolution :: "HardeningEngine \<Rightarrow> string \<Rightarrow> string option \<Rightarrow> string" where
  \<comment> \<open>profile resolution as claimed: the given profile, else the mapping table, else the
      first heuristic rule that matches, else the default profile\<close>
  "claimed_resolution self svc profile_name =
     (case profile_name of
        Some p \<Rightarrow> p
      | None \<Rightarrow>
          (case service_mappings (engine_profiles self) svc of
             Some m \<Rightarrow> m
           | None \<Rightarrow>
               (case first_rule heuristic_rules svc of
                  Some prof \<Rightarrow> prof
                | None \<Rightarrow> ''system_service'')))"

fun text_lines :: "string \<Rightarrow> string list" where
  \<comment> \<open>the lines of a unit file text: the pieces between line feeds\<close>
  "text_lines [] = [[]]"
| "text_lines (c # cs) =
     (if c = CHR 0x0A then [] # text_lines cs
      else (case text_lines cs of [] \<Rightarrow> [[c]] | l # ls \<Rightarrow> (c # l) # ls))"

definition last_summary :: "string \<Rightarrow> (string \<times> string) option" where
  \<comment> \<open>extraction as claimed: from the last line of the output that matches the pattern\<close>
  "last_summary out =
     (case filter (\<lambda>l. re_search l \<noteq> None) (text_lines out) of
        [] \<Rightarrow> None
      | l # ls \<Rightarrow> re_search (last (l # ls)))"

definition reaches_failed_health_check ::
    "environment \<Rightarrow> HardeningEngine \<Rightarrow> string \<Rightarrow> string option \<Rightarrow> world \<Rightarrow> bool" where
  \<comment> \<open>the call is on a service that is not excluded, reaches the mutation stage (the
      baseline analysis succeeds and the resolved profile is known), the service was
      active, reload and restart succeed, and the query after the restart completes with
      an answer other than \<open>active\<close>\<close>
  "reaches_failed_health_check env self svc profile_name w =
     (\<not> is_excluded self svc \<and>
      (case fst (analyze_service env svc w) of
         None \<Rightarrow> False
       | Some a \<Rightarrow>
           profiles (engine_profiles self) (determine_profile self svc profile_name) \<noteq> None
           \<and> is_active a
           \<and> (let h = issued (snd (analyze_service env svc w)) in
              (case env h daemon_reload_cmd of
                 Inl e \<Rightarrow> False
               | Inr c1 \<Rightarrow> returncode c1 = 0 \<and>
                   (case env (h @ [daemon_reload_cmd]) (restart_cmd svc) of
                      Inl e \<Rightarrow> False
                    | Inr c2 \<Rightarrow> returncode c2 = 0 \<and>
                        (case env (h @ [daemon_reload_cmd, restart_cmd svc]) (is_active_cmd svc) of
                           Inl e \<Rightarrow> False
                         | Inr status \<Rightarrow> py_strip (stdout status) \<noteq> ''active''))))))"

section \<open>Concrete configurations and machines\<close>

definition demo_overrides :: HardeningOverrides where
  "demo_overrides =
     \<lparr>NoNewPrivileges = Some ''yes'', IPAddressDeny = None, IPAddressAllow = None,
      PrivateTmp = Some ''yes'', ProtectKernelModules = None, ProtectKernelTunables = None,
      ProtectControlGroups = None, RestrictRealtime = None, LockPersonality = None,
      ProtectHome = None, ProtectSystem = None, MemoryDenyWriteExecute = None,
      RestrictSUIDSGID = None\<rparr>"

definition demo_engine :: HardeningEngine where
  "demo_engine =
     \<lparr>engine_profiles =
        \<lparr>profiles = [''system_service'' \<mapsto> \<lparr>description = ''System'', overrides = demo_overrides\<rparr>],
         service_mappings = [''docker.service'' \<mapsto> ''virtualization_service'']\<rparr>,
      engine_exclusions =
        \<lparr>excluded_services = [''sshd.service'', ''systemd-*''], exclusion_reasons = None\<rparr>,
      override_base = ''/etc/systemd/system''\<rparr>"

definition star_inside_engine :: HardeningEngine where
  "star_inside_engine =
     demo_engine\<lparr>engine_exclusions := \<lparr>excluded_services = [''a*b''], exclusion_reasons = None\<rparr>\<rparr>"

definition stale_backup_world :: world where
  \<comment> \<open>no override for foo.service, and the backup that an earlier apply left behind\<close>
  "stale_backup_world =
     \<lparr>files = [''/etc/systemd/system/foo.service.d/override.conf.backup'' \<mapsto> ''old''],
      dirs = {''/etc/systemd/system/foo.service.d''},
      issued = []\<rparr>"

definition hardened_world :: world where
  \<comment> \<open>foo.service with an override in place and the backup of the one before it\<close>
  "hardened_world =
     \<lparr>files = [''/etc/systemd/system/foo.service.d/override.conf.backup'' \<mapsto> ''old'',
               ''/etc/systemd/system/foo.service.d/override.conf'' \<mapsto> ''new''],
      dirs = {''/etc/systemd/system/foo.service.d''},
      issued = []\<rparr>"

definition quiet_env :: environment where
  \<comment> \<open>every command completes with exit code 0 and no output\<close>
  "quiet_env h cmd = Inr (Completed 0 [])"

definition injected_overrides :: HardeningOverrides where
  \<comment> \<open>one directive set, to a value that spans two lines\<close>
  "injected_overrides =
     \<lparr>NoNewPrivileges = Some (''yes'' @ [CHR 0x0A] @ ''PrivateTmp=no''), IPAddressDeny = None,
      IPAddressAllow = None, PrivateTmp = None, ProtectKernelModules = None,
      ProtectKernelTunables = None, ProtectControlGroups = None, RestrictRealtime = None,
      LockPersonality = None, ProtectHome = None, ProtectSystem = None,
      MemoryDenyWriteExecute = None, RestrictSUIDSGID = None\<rparr>"

definition deny_only_overrides :: HardeningOverrides where
  "deny_only_overrides =
     \<lparr>NoNewPrivileges = None, IPAddressDeny = Some ''any'', IPAddressAllow = None,
      PrivateTmp = None, ProtectKernelModules = None, ProtectKernelTunables = None,
      ProtectControlGroups = None, RestrictRealtime = None, LockPersonality = None,
      ProtectHome = None, ProtectSystem = None, MemoryDenyWriteExecute = None,
      RestrictSUIDSGID = None\<rparr>"

definition empty_world :: world where
  "empty_world = \<lparr>files = Map.empty, dirs = {}, issued = []\<rparr>"

definition summary_report :: string where
  \<comment> \<open>a report that ends in the summary line of Example 4\<close>
  "summary_report =
     ''  NAME  DESCRIPTION  EXPOSURE'' @ [CHR 0x0A]
       @ ''-> Overall exposure level for foo.service: 9.6 UNSAFE :('' @ [CHR 0x0A]"

definition summary_env :: environment where
  \<comment> \<open>foo.service is active and enabled and has the report above\<close>
  "summary_env h cmd =
     (if cmd = security_cmd ''foo.service'' then Inr (Completed 0 summary_report)
      else if cmd = is_active_cmd ''foo.service'' then Inr (Completed 0 (''active'' @ [CHR 0x0A]))
      else if cmd = is_enabled_cmd ''foo.service'' then Inr (Completed 0 (''enabled'' @ [CHR 0x0A]))
      else Inr (Completed 0 []))"

definition two_summaries :: string where
  "two_summaries =
     ''Overall exposure level for a.service: 1.0 OK'' @ [CHR 0x0A]
       @ ''Overall exposure level for foo.service: 9.6 UNSAFE'' @ [CHR 0x0A]"

definition two_summaries_env :: environment where
  "two_summaries_env h cmd =
     (if cmd = security_cmd ''foo.service'' then Inr (Completed 0 two_summaries)
      else Inr (Completed 0 []))"

definition exit_one_env :: environment where
  \<comment> \<open>every command completes with exit code 1 and no output\<close>
  "exit_one_env h cmd = Inr (Completed 1 [])"

definition no_tool_env :: environment where
  \<comment> \<open>no external tool is installed\<close>
  "no_tool_env h cmd = Inl FileNotFoundError"

definition zero_score_env :: environment where
  \<comment> \<open>one service, whose report gives the score 0.0\<close>
  "zero_score_env h cmd =
     (if cmd = list_units_cmd then
        Inr (Completed 0 (''zero.service loaded active running Zero'' @ [CHR 0x0A]))
      else if cmd = security_cmd ''zero.service'' then
        Inr (Completed 0 (''Overall exposure level for zero.service: 0.0 OK'' @ [CHR 0x0A]))
      else Inr (Completed 0 []))"

definition unhealthy_env :: environment where
  \<comment> \<open>foo.service is active until it is restarted and failed from then on\<close>
  "unhealthy_env h cmd =
     (if cmd = security_cmd ''foo.service'' then Inr (Completed 0 summary_report)
      else if cmd = is_active_cmd ''foo.service'' then
        (if restart_cmd ''foo.service'' \<in> set h then Inr (Completed 3 (''failed'' @ [CHR 0x0A]))
         else Inr (Completed 0 (''active'' @ [CHR 0x0A])))
      else if cmd = is_enabled_cmd ''foo.service'' then Inr (Completed 0 (''enabled'' @ [CHR 0x0A]))
      else Inr (Completed 0 []))"

section \<open>Exclusion matching\<close>

lemma is_excluded_loop_iff:
  "is_excluded_loop patterns svc \<longleftrightarrow>
     (\<exists>pattern \<in> set patterns.
        (endswith pattern ''*'' \<and> startswith svc (butlast pattern)) \<or> svc = pattern)"
  by (induction patterns) auto

text \<open>
  C6, as claimed: a pattern matches a service name exactly when the pattern ends in \<open>*\<close>
  and the name starts with what precedes that \<open>*\<close>, or the pattern has no \<open>*\<close> and
  equals the name. The loop also compares every pattern for equality, so the pattern
  \<open>a*b\<close> excludes the service name \<open>a*b\<close>, which the claimed condition does not cover.
\<close>

theorem is_excluded_star_inside_counterexample:
  "is_excluded star_inside_engine ''a*b'' \<and> \<not> claimed_match ''a*b'' ''a*b''"
  by (simp add: is_excluded_def star_inside_engine_def demo_engine_def claimed_match_def
      endswith_def)

text \<open>
  C6, amended: a service is excluded exactly when some pattern of the list ends in \<open>*\<close>
  and the service name starts with the pattern without its last character, or some
  pattern (with or without \<open>*\<close>) equals the service name.
\<close>

theorem is_excluded_iff:
  "is_excluded self svc \<longleftrightarrow>
     (\<exists>pattern \<in> set (excluded_services (engine_exclusions self)).
        (endswith pattern ''*'' \<and> startswith svc (butlast pattern)) \<or> svc = pattern)"
  by (simp add: is_excluded_def is_excluded_loop_iff)

theorem is_excluded_iff_witness:
  "is_excluded demo_engine ''systemd-journald.service'' \<and> is_excluded demo_engine ''sshd.service''
   \<and> \<not> is_excluded demo_engine ''sshd.socket''"
  using is_excluded_iff [of demo_engine "''systemd-journald.service''"]
    is_excluded_iff [of demo_engine "''sshd.service''"]
    is_excluded_iff [of demo_engine "''sshd.socket''"]
  by (simp add: demo_engine_def endswith_def startswith_def)

section \<open>Profile resolution\<close>

lemma get_profile_for_service_claimed:
  "get_profile_for_service self svc = claimed_resolution self svc None"
  by (simp add: get_profile_for_service_def claimed_resolution_def heuristic_rules_def
      split: option.splits)

text \<open>
  C4, as claimed: every explicitly given profile name is the one used. The test
  \<open>if not profile_name\<close> is also true of the empty string, so an empty name given
  explicitly is replaced by the profile found for the service.
\<close>

theorem determine_profile_empty_counterexample:
  "determine_profile demo_engine ''foo.service'' (Some '''')
     \<noteq> claimed_resolution demo_engine ''foo.service'' (Some '''')"
  by (simp add: determine_profile_def get_profile_for_service_def claimed_resolution_def
      demo_engine_def startswith_def)

text \<open>
  C4, amended: a non-empty profile name given explicitly is used as it is; when none is
  given, or the empty string is given, resolution takes the entry of the service-mapping
  table if there is one, else the first matching rule of the ordered substring heuristics
  (network/wpa/dhcp, then docker/libvirt/virtual, then dbus/gdm/login), else the default
  profile \<open>system_service\<close>.
\<close>

theorem determine_profile_resolution:
  "(profile_name \<noteq> Some [] \<longrightarrow>
      determine_profile self svc profile_name = claimed_resolution self svc profile_name)
   \<and> determine_profile self svc (Some []) = claimed_resolution self svc None"
  by (simp add: determine_profile_def get_profile_for_service_claimed claimed_resolution_def
      split: option.splits)

theorem determine_profile_resolution_witness:
  "determine_profile demo_engine ''foo.service'' (Some ''custom'') = ''custom''
   \<and> determine_profile demo_engine ''docker.service'' None = ''virtualization_service''
   \<and> determine_profile demo_engine ''docker-network.service'' None = ''network_service''
   \<and> determine_profile demo_engine ''libvirtd.service'' None = ''virtualization_service''
   \<and> determine_profile demo_engine ''gdm.service'' None = ''critical_service''
   \<and> determine_profile demo_engine ''cron.service'' None = ''system_service''
   \<and> determine_profile demo_engine ''cron.service'' (Some []) = ''system_service''"
  using determine_profile_resolution [of "Some ''custom''" demo_engine "''foo.service''"]
    determine_profile_resolution [of None demo_engine "''docker.service''"]
    determine_profile_resolution [of None demo_engine "''docker-network.service''"]
    determine_profile_resolution [of None demo_engine "''libvirtd.service''"]
    determine_profile_resolution [of None demo_engine "''gdm.service''"]
    determine_profile_resolution [of None demo_engine "''cron.service''"]
  by (simp add: claimed_resolution_def heuristic_rules_def demo_engine_def startswith_def)

section \<open>Frame lemmas for the machine\<close>

lemma subprocess_run_files [simp]: "files (snd (subprocess_run env cmd chk w)) = files w"
  by (simp add: subprocess_run_def Let_def split: sum.splits)

lemma subprocess_run_dirs [simp]: "dirs (snd (subprocess_run env cmd chk w)) = dirs w"
  by (simp add: subprocess_run_def Let_def split: sum.splits)

lemma subprocess_run_issued [simp]:
  "issued (snd (subprocess_run env cmd chk w)) = issued w @ [cmd]"
  by (simp add: subprocess_run_def Let_def split: sum.splits)

lemma io_return_snd [simp]: "snd (io_return x w) = w"
  by (simp add: io_return_def)

lemma io_bind_tail:
  assumes "\<And>x w'. g (snd (f x w')) = g w'"
  shows "g (snd (io_bind m f w)) = g (snd (m w))"
proof (cases "m w")
  case (Pair r w')
  then show ?thesis
    by (cases r) (simp_all add: io_bind_def assms)
qed

lemma override_neq_backup: "override_file self svc \<noteq> backup_file_of self svc"
  by (simp add: override_file_def backup_file_of_def)

section \<open>Rollback and revert\<close>

lemma rollback_files:
  "files (rollback env self svc backup_file w) =
     (if (case backup_file of None \<Rightarrow> False | Some b \<Rightarrow> path_exists b w)
      then (files w)(override_file self svc := files w (the backup_file))
      else (files w)(override_file self svc := None))"
proof -
  have "files (rollback env self svc backup_file w) =
        files (snd ((\<lambda>w.
          if (case backup_file of None \<Rightarrow> False | Some b \<Rightarrow> path_exists b w)
          then copy2 (the backup_file) (override_file self svc) w
          else if path_exists (override_file self svc) w then unlink (override_file self svc) w
          else io_return () w) w))"
    unfolding rollback_def rollback_body_def
    by (rule io_bind_tail) (simp add: io_bind_tail)
  then show ?thesis
    by (auto simp: path_exists_def copy2_def unlink_def io_return_def split: option.splits)
qed

text \<open>
  C10: the revert command (run as root) is \<open>rollback\<close> with no backup file; that
  rollback leaves the files as they were except that the service's override.conf is
  gone, so override.conf is absent afterwards and override.conf.backup, when an earlier
  apply left one, is neither restored nor touched.
\<close>

theorem revert_drops_override_ignores_backup:
  "revert env 0 engine svc w = (Inr (), rollback env engine svc None w)
   \<and> files (rollback env engine svc None w) = (files w)(override_file engine svc := None)
   \<and> files (rollback env engine svc None w) (override_file engine svc) = None
   \<and> files (rollback env engine svc None w) (backup_file_of engine svc)
       = files w (backup_file_of engine svc)"
  using override_neq_backup [of engine svc]
  by (simp add: revert_def rollback_files)

theorem revert_drops_override_ignores_backup_witness:
  "files hardened_world (override_file demo_engine ''foo.service'') = Some ''new''
   \<and> files (snd (revert quiet_env 0 demo_engine ''foo.service'' hardened_world))
        (override_file demo_engine ''foo.service'') = None
   \<and> files (snd (revert quiet_env 0 demo_engine ''foo.service'' hardened_world))
        (backup_file_of demo_engine ''foo.service'') = Some ''old''"
  using revert_drops_override_ignores_backup [of quiet_env demo_engine "''foo.service''" hardened_world]
  by (simp add: hardened_world_def demo_engine_def override_file_def backup_file_of_def
      override_dir_def)

section \<open>Rendering of the override directives\<close>

lemma text_lines_line_feed:
  "CHR 0x0A \<notin> set x \<Longrightarrow> text_lines (x @ CHR 0x0A # rest) = x # text_lines rest"
  by (induction x) auto

lemma text_lines_single: "CHR 0x0A \<notin> set x \<Longrightarrow> text_lines x = [x]"
  by (induction x) auto

lemma text_lines_join:
  "ls \<noteq> [] \<Longrightarrow> \<forall>l \<in> set ls. CHR 0x0A \<notin> set l \<Longrightarrow> text_lines (join [CHR 0x0A] ls) = ls"
proof (induction "[CHR 0x0A]" ls rule: join.induct)
  case 1
  then show ?case by simp
next
  case (2 x)
  then show ?case by (simp add: text_lines_single)
next
  case (3 x y ys)
  then show ?case by (simp add: text_lines_line_feed)
qed

lemma exclude_none_set: "(d, v) \<in> set (exclude_none kvs) \<longleftrightarrow> (d, Some v) \<in> set kvs"
  by (induction kvs rule: exclude_none.induct) auto

lemma exclude_none_all_absent: "\<forall>(d, v) \<in> set kvs. v = None \<Longrightarrow> exclude_none kvs = []"
  by (induction kvs rule: exclude_none.induct) auto

lemma exclude_none_only:
  "distinct (map fst kvs) \<Longrightarrow> (D, Some V) \<in> set kvs
     \<Longrightarrow> \<forall>(d, v) \<in> set kvs. d \<noteq> D \<longrightarrow> v = None \<Longrightarrow> exclude_none kvs = [(D, V)]"
proof (induction kvs rule: exclude_none.induct)
  case 1
  then show ?case by simp
next
  case (2 k kvs)
  then show ?case by auto
next
  case (3 k v kvs)
  from "3.prems" have k: "k = D" "v = V"
    by (auto simp: rev_image_eqI)
  from "3.prems" k have "\<forall>(d, v) \<in> set kvs. v = None"
    by (auto simp: rev_image_eqI)
  then show ?case using k by (simp add: exclude_none_all_absent)
qed

lemma model_dump_names:
  "map fst (model_dump self) =
     [''NoNewPrivileges'', ''IPAddressDeny'', ''IPAddressAllow'', ''PrivateTmp'',
      ''ProtectKernelModules'', ''ProtectKernelTunables'', ''ProtectControlGroups'',
      ''RestrictRealtime'', ''LockPersonality'', ''ProtectHome'', ''ProtectSystem'',
      ''MemoryDenyWriteExecute'', ''RestrictSUIDSGID'']"
  by (simp add: model_dump_def)

lemma model_dump_distinct: "distinct (map fst (model_dump self))"
  unfolding model_dump_names by simp

lemma model_dump_name_plain:
  assumes "(d, v) \<in> set (model_dump self)"
  shows "CHR ''='' \<notin> set d \<and> CHR 0x0A \<notin> set d \<and> d \<noteq> [] \<and> hd d \<noteq> CHR ''[''"
proof -
  from assms have "d \<in> set (map fst (model_dump self))"
    by (simp add: rev_image_eqI)
  then show ?thesis
    unfolding model_dump_names by auto
qed

lemma same_name_of_prefix:
  "e \<notin> set n \<Longrightarrow> e \<notin> set d \<Longrightarrow> take (Suc (length d)) (n @ e # v) = d @ [e] \<Longrightarrow> n = d"
proof (induction d arbitrary: n)
  case Nil
  then show ?case by (cases n) auto
next
  case (Cons y d)
  then show ?case by (cases n) auto
qed

lemma config_lines_text:
  assumes "\<forall>(d, v) \<in> set (model_dump self). \<forall>x. v = Some x \<longrightarrow> CHR 0x0A \<notin> set x"
  shows "text_lines (to_systemd_config self) = config_lines self"
proof -
  have "\<forall>l \<in> set (config_lines self). CHR 0x0A \<notin> set l"
    using assms model_dump_name_plain [of _ _ self]
    by (fastforce simp: config_lines_def exclude_none_set)
  then show ?thesis
    by (simp add: to_systemd_config_def text_lines_join config_lines_def)
qed

lemma model_dump_functional:
  "(d, v) \<in> set (model_dump self) \<Longrightarrow> (d, v') \<in> set (model_dump self) \<Longrightarrow> v = v'"
  by (rule eq_key_imp_eq_value [OF model_dump_distinct])

lemma config_lines_cases:
  assumes "l \<in> set (config_lines self)"
  shows "l = ''[Service]'' \<or> (\<exists>d v. (d, Some v) \<in> set (model_dump self) \<and> l = d @ ''='' @ v)"
proof -
  from assms have "l = ''[Service]'' \<or> (\<exists>d v. (d, v) \<in> set (exclude_none (model_dump self)) \<and> l = d @ ''='' @ v)"
    unfolding config_lines_def by auto
  then show ?thesis
    unfolding exclude_none_set .
qed

lemma header_line_not_directive:
  assumes "(A, x) \<in> set (model_dump self)"
  shows "\<not> startswith ''[Service]'' (A @ ''='')"
proof -
  from model_dump_name_plain [OF assms] obtain a as where "A = a # as" "a \<noteq> CHR ''[''"
    by (cases A) auto
  then show ?thesis
    by (simp add: startswith_def)
qed

lemma directive_line_name:
  assumes "(d, Some v) \<in> set (model_dump self)" and "(A, x) \<in> set (model_dump self)"
    and "startswith (d @ ''='' @ v) (A @ ''='')"
  shows "d = A"
proof -
  have d: "CHR ''='' \<notin> set d"
    using model_dump_name_plain [OF assms(1)] by simp
  have A: "CHR ''='' \<notin> set A"
    using model_dump_name_plain [OF assms(2)] by simp
  from assms(3) have "take (Suc (length A)) (d @ CHR ''='' # v) = A @ [CHR ''='']"
    by (simp add: startswith_def)
  with d A show ?thesis
    by (rule same_name_of_prefix)
qed

lemma absent_directive_no_line:
  assumes absent: "(A, None) \<in> set (model_dump self)"
    and l: "l \<in> set (config_lines self)"
  shows "\<not> startswith l (A @ ''='')"
proof
  assume sw: "startswith l (A @ ''='')"
  from config_lines_cases [OF l] show False
  proof
    assume "l = ''[Service]''"
    with sw header_line_not_directive [OF absent] show False by simp
  next
    assume "\<exists>d v. (d, Some v) \<in> set (model_dump self) \<and> l = d @ ''='' @ v"
    then obtain d v where dv: "(d, Some v) \<in> set (model_dump self)" and ldv: "l = d @ ''='' @ v"
      by blast
    from sw ldv have "startswith (d @ ''='' @ v) (A @ ''='')" by simp
    then have "d = A"
      by (rule directive_line_name [OF dv absent])
    with dv have "(A, Some v) \<in> set (model_dump self)" by simp
    from model_dump_functional [OF this absent] show False by simp
  qed
qed

text \<open>
  C8, as claimed: whatever the value V of the only directive set, the rendered text has
  exactly one line \<open>D=V\<close> and no line for an unset directive. The value is written as it
  is, so a value that holds a line feed spreads over two lines: here no line of the text is
  \<open>NoNewPrivileges=V\<close>, and the text has a line \<open>PrivateTmp=no\<close> although PrivateTmp is
  unset.
\<close>

theorem to_systemd_config_line_feed_counterexample:
  "PrivateTmp injected_overrides = None
   \<and> ''PrivateTmp=no'' \<in> set (text_lines (to_systemd_config injected_overrides))
   \<and> ''NoNewPrivileges='' @ the (NoNewPrivileges injected_overrides)
       \<notin> set (text_lines (to_systemd_config injected_overrides))"
  by (simp add: injected_overrides_def to_systemd_config_def config_lines_def model_dump_def)

text \<open>
  C8, amended: when directive D is set to a value V that holds no line feed and every
  other directive is absent, the rendered text consists of the line \<open>[Service]\<close> and the
  one line \<open>D=V\<close>; and whenever no set value holds a line feed, no line of the rendered
  text begins with \<open>A=\<close> for an absent directive A.
\<close>

theorem to_systemd_config_lines:
  "((D, Some V) \<in> set (model_dump self)
      \<and> (\<forall>(d, v) \<in> set (model_dump self). d \<noteq> D \<longrightarrow> v = None)
      \<and> CHR 0x0A \<notin> set V
     \<longrightarrow> text_lines (to_systemd_config self) = [''[Service]'', D @ ''='' @ V])
   \<and> ((A, None) \<in> set (model_dump self)
      \<and> (\<forall>(d, v) \<in> set (model_dump self). \<forall>x. v = Some x \<longrightarrow> CHR 0x0A \<notin> set x)
     \<longrightarrow> (\<forall>l \<in> set (text_lines (to_systemd_config self)). \<not> startswith l (A @ ''='')))"
proof (intro conjI impI)
  assume h: "(D, Some V) \<in> set (model_dump self)
      \<and> (\<forall>(d, v) \<in> set (model_dump self). d \<noteq> D \<longrightarrow> v = None)
      \<and> CHR 0x0A \<notin> set V"
  then have D: "(D, Some V) \<in> set (model_dump self)"
    and others: "\<forall>(d, v) \<in> set (model_dump self). d \<noteq> D \<longrightarrow> v = None"
    and V: "CHR 0x0A \<notin> set V"
    by simp_all
  have only: "exclude_none (model_dump self) = [(D, V)]"
    by (rule exclude_none_only [OF model_dump_distinct D others])
  have "\<forall>(d, v) \<in> set (model_dump self). \<forall>x. v = Some x \<longrightarrow> CHR 0x0A \<notin> set x"
  proof (clarify)
    fix d x
    assume dx: "(d, Some x) \<in> set (model_dump self)" and "CHR 0x0A \<in> set x"
    have "d = D"
    proof (rule ccontr)
      assume "d \<noteq> D"
      with others dx have "Some x = None" by blast
      then show False by simp
    qed
    with dx model_dump_functional [OF D] have "x = V" by blast
    with V \<open>CHR 0x0A \<in> set x\<close> show False by simp
  qed
  then have "text_lines (to_systemd_config self) = config_lines self"
    by (rule config_lines_text)
  then show "text_lines (to_systemd_config self) = [''[Service]'', D @ ''='' @ V]"
    by (simp add: config_lines_def only)
next
  assume h: "(A, None) \<in> set (model_dump self)
      \<and> (\<forall>(d, v) \<in> set (model_dump self). \<forall>x. v = Some x \<longrightarrow> CHR 0x0A \<notin> set x)"
  then have absent: "(A, None) \<in> set (model_dump self)"
    and plain: "\<forall>(d, v) \<in> set (model_dump self). \<forall>x. v = Some x \<longrightarrow> CHR 0x0A \<notin> set x"
    by simp_all
  have "text_lines (to_systemd_config self) = config_lines self"
    using plain by (rule config_lines_text)
  then show "\<forall>l \<in> set (text_lines (to_systemd_config self)). \<not> startswith l (A @ ''='')"
    using absent_directive_no_line [OF absent] by simp
qed

theorem to_systemd_config_lines_witness:
  "text_lines (to_systemd_config deny_only_overrides) = [''[Service]'', ''IPAddressDeny=any'']
   \<and> \<not> startswith (text_lines (to_systemd_config deny_only_overrides) ! 1) ''PrivateTmp=''"
proof -
  have dump: "model_dump deny_only_overrides =
     [(''NoNewPrivileges'', None), (''IPAddressDeny'', Some ''any''), (''IPAddressAllow'', None),
      (''PrivateTmp'', None), (''ProtectKernelModules'', None), (''ProtectKernelTunables'', None),
      (''ProtectControlGroups'', None), (''RestrictRealtime'', None), (''LockPersonality'', None),
      (''ProtectHome'', None), (''ProtectSystem'', None), (''MemoryDenyWriteExecute'', None),
      (''RestrictSUIDSGID'', None)]"
    by (simp add: model_dump_def deny_only_overrides_def)
  have set1: "(''IPAddressDeny'', Some ''any'') \<in> set (model_dump deny_only_overrides)"
    unfolding dump by simp
  have rest: "\<forall>(d, v) \<in> set (model_dump deny_only_overrides). d \<noteq> ''IPAddressDeny'' \<longrightarrow> v = None"
    unfolding dump by simp
  have lf: "CHR 0x0A \<notin> set ''any''"
    by simp
  have absent: "(''PrivateTmp'', None) \<in> set (model_dump deny_only_overrides)"
    unfolding dump by simp
  have plain: "\<forall>(d, v) \<in> set (model_dump deny_only_overrides).
      \<forall>x. v = Some x \<longrightarrow> CHR 0x0A \<notin> set x"
    unfolding dump by simp
  from to_systemd_config_lines
    [of "''IPAddressDeny''" "''any''" deny_only_overrides "''PrivateTmp''"]
    set1 rest lf absent plain
  show ?thesis
    by simp
qed

section \<open>The analyzer\<close>

lemmas text_defs =
  is_space_def is_digit_def is_word_def is_digit_or_dot_def is_linebreak_def startswith_def
  endswith_def py_strip_def py_split_def py_splitlines_def match_tail_def match_at_def
  py_float_def dec_def digit_val_def

lemmas cmd_defs =
  list_units_cmd_def security_cmd_def is_active_cmd_def is_enabled_cmd_def daemon_reload_cmd_def
  restart_cmd_def

lemmas analyze_defs =
  analyze_service_def analyze_body_def io_bind_def io_return_def subprocess_run_def
  parse_exposure_def

lemma re_search_leftmost:
  "re_search s = Some g \<longleftrightarrow>
     (\<exists>i \<le> length s. match_at (drop i s) = Some g \<and> (\<forall>j < i. match_at (drop j s) = None))"
proof (induction s)
  case Nil
  then show ?case by auto
next
  case (Cons c cs)
  show ?case
  proof (cases "match_at (c # cs)")
    case (Some h)
    have "(\<exists>i \<le> length (c # cs). match_at (drop i (c # cs)) = Some g
            \<and> (\<forall>j < i. match_at (drop j (c # cs)) = None)) \<longleftrightarrow> h = g"
    proof
      assume "\<exists>i \<le> length (c # cs). match_at (drop i (c # cs)) = Some g
            \<and> (\<forall>j < i. match_at (drop j (c # cs)) = None)"
      then obtain i where i: "match_at (drop i (c # cs)) = Some g"
        "\<forall>j < i. match_at (drop j (c # cs)) = None" by blast
      have "i = 0"
      proof (rule ccontr)
        assume "i \<noteq> 0"
        then have "match_at (drop 0 (c # cs)) = None" using i(2) by blast
        with Some show False by simp
      qed
      with i(1) Some show "h = g" by simp
    next
      assume "h = g"
      with Some have "match_at (drop 0 (c # cs)) = Some g \<and> (\<forall>j < 0. match_at (drop j (c # cs)) = None)"
        by simp
      then show "\<exists>i \<le> length (c # cs). match_at (drop i (c # cs)) = Some g
            \<and> (\<forall>j < i. match_at (drop j (c # cs)) = None)"
        by blast
    qed
    with Some show ?thesis by simp
  next
    case None
    have "(\<exists>i \<le> length (c # cs). match_at (drop i (c # cs)) = Some g
            \<and> (\<forall>j < i. match_at (drop j (c # cs)) = None))
        \<longleftrightarrow> (\<exists>i \<le> length cs. match_at (drop i cs) = Some g
            \<and> (\<forall>j < i. match_at (drop j cs) = None))" (is "?L \<longleftrightarrow> ?R")
    proof
      assume ?L
      then obtain i where i: "i \<le> length (c # cs)" "match_at (drop i (c # cs)) = Some g"
        "\<forall>j < i. match_at (drop j (c # cs)) = None" by blast
      from i(2) None obtain k where k: "i = Suc k" by (cases i) auto
      have "\<forall>j < k. match_at (drop j cs) = None"
      proof (intro allI impI)
        fix j assume "j < k"
        then have "Suc j < i" using k by simp
        with i(3) have "match_at (drop (Suc j) (c # cs)) = None" by blast
        then show "match_at (drop j cs) = None" by simp
      qed
      with i k show ?R by auto
    next
      assume ?R
      then obtain i where i: "i \<le> length cs" "match_at (drop i cs) = Some g"
        "\<forall>j < i. match_at (drop j cs) = None" by blast
      have "\<forall>j < Suc i. match_at (drop j (c # cs)) = None"
      proof (intro allI impI)
        fix j assume j: "j < Suc i"
        show "match_at (drop j (c # cs)) = None"
        proof (cases j)
          case 0
          with None show ?thesis by simp
        next
          case (Suc m)
          with j i(3) show ?thesis by simp
        qed
      qed
      moreover have "Suc i \<le> length (c # cs)" "match_at (drop (Suc i) (c # cs)) = Some g"
        using i by simp_all
      ultimately show ?L by blast
    qed
    with None Cons.IH show ?thesis by simp
  qed
qed

lemma analyze_service_completed:
  assumes "env (issued w) (security_cmd svc) = Inr result"
    and "env (issued w @ [security_cmd svc]) (is_active_cmd svc) = Inr st"
    and "env (issued w @ [security_cmd svc, is_active_cmd svc]) (is_enabled_cmd svc) = Inr en"
  shows "fst (analyze_service env svc w) =
     (case parse_exposure (stdout result) of
        Inl e \<Rightarrow> None
      | Inr (score, level) \<Rightarrow>
          Some \<lparr>name = svc, exposure_score = score, exposure_level = level,
                is_active = (py_strip (stdout st) = ''active''),
                is_enabled = (py_strip (stdout en) \<in> set [''enabled'', ''static'']),
                suggested_profile = None\<rparr>)"
  using assms
  by (simp add: analyze_service_def analyze_body_def io_bind_def io_return_def subprocess_run_def
      split: sum.splits prod.splits)

text \<open>
  C5, as claimed: the score and the level come from the last line of the output that
  matches the pattern. \<open>re.search\<close> returns the leftmost match, so of two summary lines
  the first one is read: score 1.0 and level OK, where the last line says 9.6 UNSAFE.
\<close>

theorem analyze_service_last_line_counterexample:
  "map_option exposure_score (fst (analyze_service two_summaries_env ''foo.service'' empty_world))
     = Some (Some 1)
   \<and> map_option exposure_level (fst (analyze_service two_summaries_env ''foo.service'' empty_world))
     = Some (Some ''OK'')
   \<and> last_summary two_summaries = Some (''9.6'', ''UNSAFE'')"
  by (simp add: analyze_defs two_summaries_env_def two_summaries_def empty_world_def
      last_summary_def text_defs cmd_defs)

text \<open>
  C5, amended: when the three queries of \<open>analyze_service\<close> complete, the score and the
  level are those of the leftmost match of the pattern in the output of the security
  report (the match at the first position that has one), provided the matched score text
  is a decimal literal; both are left unset, in a present result, when the output has no
  match; and a matched score text that is no literal (as \<open>1.2.3\<close>) gives the absent
  result. The output of Example 4 gives score 9.6 and level UNSAFE.
\<close>

theorem analyze_service_extraction:
  assumes "env (issued w) (security_cmd svc) = Inr result"
    and "env (issued w @ [security_cmd svc]) (is_active_cmd svc) = Inr st"
    and "env (issued w @ [security_cmd svc, is_active_cmd svc]) (is_enabled_cmd svc) = Inr en"
  shows "(re_search (stdout result) = None \<longrightarrow>
            map_option exposure_score (fst (analyze_service env svc w)) = Some None
          \<and> map_option exposure_level (fst (analyze_service env svc w)) = Some None)
       \<and> (\<forall>g1 g2 x. re_search (stdout result) = Some (g1, g2) \<and> py_float g1 = Inr x \<longrightarrow>
            map_option exposure_score (fst (analyze_service env svc w)) = Some (Some x)
          \<and> map_option exposure_level (fst (analyze_service env svc w)) = Some (Some g2))
       \<and> (\<forall>g1 g2 e. re_search (stdout result) = Some (g1, g2) \<and> py_float g1 = Inl e \<longrightarrow>
            fst (analyze_service env svc w) = None)
       \<and> (\<forall>g. re_search (stdout result) = Some g \<longleftrightarrow>
            (\<exists>i \<le> length (stdout result). match_at (drop i (stdout result)) = Some g
               \<and> (\<forall>j < i. match_at (drop j (stdout result)) = None)))"
proof (intro conjI allI impI)
  assume "re_search (stdout result) = None"
  then have p: "parse_exposure (stdout result) = Inr (None, None)"
    by (simp add: parse_exposure_def)
  show "map_option exposure_score (fst (analyze_service env svc w)) = Some None"
    by (simp add: analyze_service_completed [OF assms] p)
  show "map_option exposure_level (fst (analyze_service env svc w)) = Some None"
    by (simp add: analyze_service_completed [OF assms] p)
next
  fix g1 g2 x
  assume "re_search (stdout result) = Some (g1, g2) \<and> py_float g1 = Inr x"
  then have p: "parse_exposure (stdout result) = Inr (Some x, Some g2)"
    by (simp add: parse_exposure_def)
  show "map_option exposure_score (fst (analyze_service env svc w)) = Some (Some x)"
    by (simp add: analyze_service_completed [OF assms] p)
  show "map_option exposure_level (fst (analyze_service env svc w)) = Some (Some g2)"
    by (simp add: analyze_service_completed [OF assms] p)
next
  fix g1 g2 e
  assume "re_search (stdout result) = Some (g1, g2) \<and> py_float g1 = Inl e"
  then have p: "parse_exposure (stdout result) = Inl e"
    by (simp add: parse_exposure_def)
  show "fst (analyze_service env svc w) = None"
    by (simp add: analyze_service_completed [OF assms] p)
next
  fix g
  show "re_search (stdout result) = Some g \<longleftrightarrow>
     (\<exists>i \<le> length (stdout result). match_at (drop i (stdout result)) = Some g
        \<and> (\<forall>j < i. match_at (drop j (stdout result)) = None))"
    by (rule re_search_leftmost)
qed

theorem analyze_service_extraction_witness:
  "map_option exposure_score (fst (analyze_service summary_env ''foo.service'' empty_world))
     = Some (Some 9.6)
   \<and> map_option exposure_level (fst (analyze_service summary_env ''foo.service'' empty_world))
     = Some (Some ''UNSAFE'')"
proof -
  have a: "summary_env (issued empty_world) (security_cmd ''foo.service'')
      = Inr (Completed 0 summary_report)"
    by (simp add: summary_env_def)
  have b: "summary_env (issued empty_world @ [security_cmd ''foo.service''])
      (is_active_cmd ''foo.service'') = Inr (Completed 0 (''active'' @ [CHR 0x0A]))"
    by (simp add: summary_env_def cmd_defs)
  have c: "summary_env (issued empty_world @ [security_cmd ''foo.service'', is_active_cmd ''foo.service''])
      (is_enabled_cmd ''foo.service'') = Inr (Completed 0 (''enabled'' @ [CHR 0x0A]))"
    by (simp add: summary_env_def cmd_defs)
  have m: "re_search (stdout (Completed 0 summary_report)) = Some (''9.6'', ''UNSAFE'')"
    by (simp add: summary_report_def text_defs)
  have f: "py_float ''9.6'' = Inr 9.6"
    by (simp add: text_defs)
  from analyze_service_extraction [OF a b c] m f show ?thesis
    by blast
qed

lemma get_all_services_tool_unavailable:
  "fst (get_all_services no_tool_env empty_world) = Inl FileNotFoundError"
  by (simp add: get_all_services_def subprocess_run_def no_tool_env_def)

lemma analyze_service_raised:
  assumes "env (issued w) (security_cmd svc) = Inl e"
  shows "fst (analyze_service env svc w) = None"
  using assms by (simp add: analyze_defs)

lemma analyze_service_raised_is_active:
  assumes "env (issued w) (security_cmd svc) = Inr r"
    and "env (issued w @ [security_cmd svc]) (is_active_cmd svc) = Inl e"
  shows "fst (analyze_service env svc w) = None"
  using assms by (simp add: analyze_defs split: sum.splits prod.splits option.splits)

lemma analyze_service_raised_is_enabled:
  assumes "env (issued w) (security_cmd svc) = Inr r"
    and "env (issued w @ [security_cmd svc]) (is_active_cmd svc) = Inr st"
    and "env (issued w @ [security_cmd svc, is_active_cmd svc]) (is_enabled_cmd svc) = Inl e"
  shows "fst (analyze_service env svc w) = None"
  using assms by (simp add: analyze_defs split: sum.splits prod.splits option.splits)

text \<open>
  C3, as claimed: a non-zero exit of an external query makes \<open>analyze_service\<close> return the
  absent result. Its queries run with \<open>check=False\<close>, so when every command exits with
  code 1 the result is a present analysis with nothing set.
\<close>

theorem analyze_service_exit_code_counterexample:
  "fst (analyze_service exit_one_env ''foo.service'' empty_world) =
     Some \<lparr>name = ''foo.service'', exposure_score = None, exposure_level = None,
           is_active = False, is_enabled = False, suggested_profile = None\<rparr>"
  by (simp add: analyze_defs exit_one_env_def empty_world_def text_defs)

text \<open>
  C3, amended: when the listing query exits with a non-zero code, \<open>get_all_services\<close>
  returns the empty list; when one of the three queries of \<open>analyze_service\<close> raises (as
  when the tool is not installed), \<open>analyze_service\<close> returns the absent result and does
  not raise; a non-zero exit code of these three queries is no failure: when all three
  complete, with whatever exit codes, the result is present unless the matched score text
  is no number.
\<close>

theorem query_failures_degrade:
  "(\<forall>c. env (issued w) list_units_cmd = Inr c \<and> returncode c \<noteq> 0 \<longrightarrow>
       fst (get_all_services env w) = Inr [])
   \<and> (\<forall>e. env (issued w) (security_cmd svc) = Inl e \<longrightarrow>
       fst (analyze_service env svc w) = None)
   \<and> (\<forall>r e. env (issued w) (security_cmd svc) = Inr r
         \<and> env (issued w @ [security_cmd svc]) (is_active_cmd svc) = Inl e \<longrightarrow>
       fst (analyze_service env svc w) = None)
   \<and> (\<forall>r st e. env (issued w) (security_cmd svc) = Inr r
         \<and> env (issued w @ [security_cmd svc]) (is_active_cmd svc) = Inr st
         \<and> env (issued w @ [security_cmd svc, is_active_cmd svc]) (is_enabled_cmd svc) = Inl e \<longrightarrow>
       fst (analyze_service env svc w) = None)
   \<and> (\<forall>r st en. env (issued w) (security_cmd svc) = Inr r
         \<and> env (issued w @ [security_cmd svc]) (is_active_cmd svc) = Inr st
         \<and> env (issued w @ [security_cmd svc, is_active_cmd svc]) (is_enabled_cmd svc) = Inr en \<longrightarrow>
       (fst (analyze_service env svc w) = None \<longleftrightarrow> parse_exposure (stdout r) = Inl ValueError))"
proof (intro conjI allI impI)
  fix c
  assume "env (issued w) list_units_cmd = Inr c \<and> returncode c \<noteq> 0"
  then show "fst (get_all_services env w) = Inr []"
    by (simp add: get_all_services_def subprocess_run_def)
next
  fix e
  assume "env (issued w) (security_cmd svc) = Inl e"
  then show "fst (analyze_service env svc w) = None"
    by (rule analyze_service_raised)
next
  fix r e
  assume "env (issued w) (security_cmd svc) = Inr r
         \<and> env (issued w @ [security_cmd svc]) (is_active_cmd svc) = Inl e"
  then show "fst (analyze_service env svc w) = None"
    using analyze_service_raised_is_active by blast
next
  fix r st e
  assume "env (issued w) (security_cmd svc) = Inr r
         \<and> env (issued w @ [security_cmd svc]) (is_active_cmd svc) = Inr st
         \<and> env (issued w @ [security_cmd svc, is_active_cmd svc]) (is_enabled_cmd svc) = Inl e"
  then show "fst (analyze_service env svc w) = None"
    using analyze_service_raised_is_enabled by blast
next
  fix r st en
  assume h: "env (issued w) (security_cmd svc) = Inr r
         \<and> env (issued w @ [security_cmd svc]) (is_active_cmd svc) = Inr st
         \<and> env (issued w @ [security_cmd svc, is_active_cmd svc]) (is_enabled_cmd svc) = Inr en"
  have v: "\<And>e. parse_exposure (stdout r) = Inl e \<Longrightarrow> e = ValueError"
    by (auto simp: parse_exposure_def py_float_def Let_def
        split: option.splits sum.splits list.splits if_splits)
  from h have "fst (analyze_service env svc w) =
     (case parse_exposure (stdout r) of
        Inl e \<Rightarrow> None
      | Inr (score, level) \<Rightarrow>
          Some \<lparr>name = svc, exposure_score = score, exposure_level = level,
                is_active = (py_strip (stdout st) = ''active''),
                is_enabled = (py_strip (stdout en) \<in> set [''enabled'', ''static'']),
                suggested_profile = None\<rparr>)"
    using analyze_service_completed by blast
  then show "fst (analyze_service env svc w) = None \<longleftrightarrow> parse_exposure (stdout r) = Inl ValueError"
    using v by (auto split: sum.splits)
qed

theorem query_failures_degrade_witness:
  "fst (get_all_services exit_one_env empty_world) = Inr []
   \<and> fst (analyze_service no_tool_env ''foo.service'' empty_world) = None
   \<and> fst (analyze_service exit_one_env ''foo.service'' empty_world) \<noteq> None"
proof -
  have a: "exit_one_env (issued empty_world) list_units_cmd = Inr (Completed 1 [])
      \<and> returncode (Completed 1 []) \<noteq> 0"
    by (simp add: exit_one_env_def)
  have b: "no_tool_env (issued empty_world) (security_cmd ''foo.service'') = Inl FileNotFoundError"
    by (simp add: no_tool_env_def)
  have c: "exit_one_env (issued empty_world) (security_cmd ''foo.service'') = Inr (Completed 1 [])
      \<and> exit_one_env (issued empty_world @ [security_cmd ''foo.service''])
           (is_active_cmd ''foo.service'') = Inr (Completed 1 [])
      \<and> exit_one_env (issued empty_world @ [security_cmd ''foo.service'', is_active_cmd ''foo.service''])
           (is_enabled_cmd ''foo.service'') = Inr (Completed 1 [])"
    by (simp add: exit_one_env_def)
  have d: "parse_exposure (stdout (Completed 1 [])) \<noteq> Inl ValueError"
    by (simp add: parse_exposure_def text_defs)
  from query_failures_degrade [of exit_one_env empty_world "''foo.service''"] a c d
  have "fst (get_all_services exit_one_env empty_world) = Inr []"
    "fst (analyze_service exit_one_env ''foo.service'' empty_world) \<noteq> None"
    by blast+
  moreover from query_failures_degrade [of no_tool_env empty_world "''foo.service''"] b
  have "fst (analyze_service no_tool_env ''foo.service'' empty_world) = None"
    by blast
  ultimately show ?thesis by simp
qed

section \<open>High-exposure services\<close>

lemma analyze_each_keeps:
  "a \<in> set (fst (analyze_each env ss threshold w)) \<Longrightarrow>
     \<exists>x. exposure_score a = Some x \<and> x \<noteq> 0 \<and> threshold \<le> x"
proof (induction ss arbitrary: w)
  case Nil
  then show ?case by simp
next
  case (Cons s ss)
  obtain analysis w1 where a1: "analyze_service env s w = (analysis, w1)"
    by (cases "analyze_service env s w")
  obtain rest w2 where a2: "analyze_each env ss threshold w1 = (rest, w2)"
    by (cases "analyze_each env ss threshold w1")
  from Cons.prems a1 a2 have "a \<in> set rest \<or> (keeps analysis threshold \<and> a = the analysis)"
    by (auto split: if_splits)
  then show ?case
  proof
    assume "a \<in> set rest"
    with a2 Cons.IH [of w1] show ?thesis by simp
  next
    assume "keeps analysis threshold \<and> a = the analysis"
    then show ?thesis
      by (auto simp: keeps_def split: option.splits)
  qed
qed

lemma high_exposure_members:
  assumes "fst (get_high_exposure_services env threshold w) = Inr xs" and "a \<in> set xs"
  shows "\<exists>x. exposure_score a = Some x \<and> x \<noteq> 0 \<and> threshold \<le> x"
proof -
  obtain r w1 where g: "get_all_services env w = (r, w1)"
    by (cases "get_all_services env w")
  with assms(1) obtain services where r: "r = Inr services"
    by (cases r) (simp_all add: get_high_exposure_services_def)
  obtain high w2 where h: "analyze_each env services threshold w1 = (high, w2)"
    by (cases "analyze_each env services threshold w1")
  from assms(1) g r h have "xs = sorted_reverse high"
    by (simp add: get_high_exposure_services_def)
  with assms(2) have "a \<in> set (fst (analyze_each env services threshold w1))"
    by (simp add: sorted_reverse_def h)
  then show ?thesis by (rule analyze_each_keeps)
qed

lemma high_exposure_descending:
  assumes "fst (get_high_exposure_services env threshold w) = Inr xs"
  shows "sorted (map (\<lambda>x. - sort_key_of x) xs)"
proof -
  from assms obtain ys where "xs = sorted_reverse ys"
    by (auto simp: get_high_exposure_services_def split: prod.splits sum.splits)
  then show ?thesis by (simp add: sorted_reverse_def)
qed

text \<open>
  C2: a service whose score is present and at least the threshold is kept, a score of
  exactly 0.0 with a threshold of 0 included. Here the only service, zero.service, is
  listed and analyzed with the score 0.0, and the threshold is 0: the test
  \<open>analysis.exposure_score and ...\<close> takes the float 0.0 for false, and the result is
  empty.
\<close>

theorem zero_score_not_kept:
  "fst (get_all_services zero_score_env empty_world) = Inr [''zero.service'']
   \<and> map_option exposure_score (fst (analyze_service zero_score_env ''zero.service'' empty_world))
       = Some (Some 0)
   \<and> fst (get_high_exposure_services zero_score_env 0 empty_world) = Inr []"
proof -
  have services: "parse_services (''zero.service loaded active running Zero'' @ [CHR 0x0A])
      = [''zero.service'']"
    by code_simp
  have listed: "get_all_services zero_score_env w
      = (Inr [''zero.service''], w\<lparr>issued := issued w @ [list_units_cmd]\<rparr>)" for w
    using services by (simp add: get_all_services_def subprocess_run_def zero_score_env_def)
  have parsed: "parse_exposure (''Overall exposure level for zero.service: 0.0 OK'' @ [CHR 0x0A])
      = Inr (Some 0, Some ''OK'')"
    by (simp add: parse_exposure_def text_defs)
  have analysed: "analyze_service zero_score_env ''zero.service'' w =
      (Some \<lparr>name = ''zero.service'', exposure_score = Some 0, exposure_level = Some ''OK'',
             is_active = False, is_enabled = False, suggested_profile = None\<rparr>,
       w\<lparr>issued := issued w @ [security_cmd ''zero.service'', is_active_cmd ''zero.service'',
                                 is_enabled_cmd ''zero.service'']\<rparr>)" for w
    using parsed by (simp add: analyze_service_def analyze_body_def io_bind_def io_return_def
        subprocess_run_def zero_score_env_def cmd_defs py_strip_def)
  have each: "fst (analyze_each zero_score_env [''zero.service''] 0 w) = []" for w
    by (simp add: analysed keeps_def)
  have high: "fst (get_high_exposure_services zero_score_env 0 empty_world)
      = Inr (sorted_reverse (fst (analyze_each zero_score_env [''zero.service''] 0
               (empty_world\<lparr>issued := issued empty_world @ [list_units_cmd]\<rparr>))))"
    by (simp add: get_high_exposure_services_def listed split: prod.splits)
  have "fst (get_high_exposure_services zero_score_env 0 empty_world) = Inr []"
    unfolding high each by (simp add: sorted_reverse_def)
  moreover have "fst (get_all_services zero_score_env empty_world) = Inr [''zero.service'']"
    by (simp add: listed)
  moreover have "map_option exposure_score
      (fst (analyze_service zero_score_env ''zero.service'' empty_world)) = Some (Some 0)"
    by (simp add: analysed)
  ultimately show ?thesis by simp
qed

section \<open>Applying a profile\<close>

lemma io_bind_InrE:
  assumes "io_bind m f w = (Inr y, w'')"
  obtains x w' where "m w = (Inr x, w')" and "f x w' = (Inr y, w'')"
proof (cases "m w")
  case (Pair r w')
  with assms show ?thesis
    by (cases r) (auto simp: io_bind_def intro: that)
qed

lemma subprocess_run_frame:
  assumes "subprocess_run env cmd chk w = (r, w')"
  shows "files w' = files w" and "dirs w' = dirs w" and "issued w' = issued w @ [cmd]"
  using subprocess_run_files [of env cmd chk w] subprocess_run_dirs [of env cmd chk w]
    subprocess_run_issued [of env cmd chk w] assms
  by simp_all

lemma analyze_service_snd:
  "snd (analyze_service env svc w) = snd (analyze_body env svc w)"
  by (simp add: analyze_service_def split: prod.splits sum.splits)

lemma analyze_service_files [simp]: "files (snd (analyze_service env svc w)) = files w"
  unfolding analyze_service_snd analyze_body_def
  by (simp add: io_bind_tail split: prod.splits)

lemma analyze_service_dirs [simp]: "dirs (snd (analyze_service env svc w)) = dirs w"
  unfolding analyze_service_snd analyze_body_def
  by (simp add: io_bind_tail split: prod.splits)

lemma analyze_service_issued:
  "issued (snd (analyze_service env svc w)) = issued w @ [security_cmd svc]
   \<or> issued (snd (analyze_service env svc w)) = issued w @ [security_cmd svc, is_active_cmd svc]
   \<or> issued (snd (analyze_service env svc w))
       = issued w @ [security_cmd svc, is_active_cmd svc, is_enabled_cmd svc]"
  by (auto simp: analyze_defs Let_def split: sum.splits prod.splits)

lemma analyze_service_queries_only:
  "\<exists>qs. issued (snd (analyze_service env svc w)) = issued w @ qs
     \<and> set qs \<subseteq> {security_cmd svc, is_active_cmd svc, is_enabled_cmd svc}"
proof -
  from analyze_service_issued [of env svc w] consider
    "issued (snd (analyze_service env svc w)) = issued w @ [security_cmd svc]"
    | "issued (snd (analyze_service env svc w)) = issued w @ [security_cmd svc, is_active_cmd svc]"
    | "issued (snd (analyze_service env svc w))
       = issued w @ [security_cmd svc, is_active_cmd svc, is_enabled_cmd svc]"
    by blast
  then show ?thesis
  proof cases
    case 1
    then have "issued (snd (analyze_service env svc w)) = issued w @ [security_cmd svc]
      \<and> set [security_cmd svc] \<subseteq> {security_cmd svc, is_active_cmd svc, is_enabled_cmd svc}"
      by simp
    then show ?thesis by blast
  next
    case 2
    then have "issued (snd (analyze_service env svc w)) = issued w @ [security_cmd svc, is_active_cmd svc]
      \<and> set [security_cmd svc, is_active_cmd svc]
          \<subseteq> {security_cmd svc, is_active_cmd svc, is_enabled_cmd svc}"
      by simp
    then show ?thesis by blast
  next
    case 3
    then have "issued (snd (analyze_service env svc w))
        = issued w @ [security_cmd svc, is_active_cmd svc, is_enabled_cmd svc]
      \<and> set [security_cmd svc, is_active_cmd svc, is_enabled_cmd svc]
          \<subseteq> {security_cmd svc, is_active_cmd svc, is_enabled_cmd svc}"
      by simp
    then show ?thesis by blast
  qed
qed

lemma queries_are_not_mutations:
  "daemon_reload_cmd \<notin> {security_cmd svc, is_active_cmd svc, is_enabled_cmd svc}"
  "restart_cmd s \<notin> {security_cmd svc, is_active_cmd svc, is_enabled_cmd svc}"
  by (simp_all add: cmd_defs)

lemma apply_hardening_no_mutation:
  assumes "is_excluded self svc \<or> fst (analyze_service env svc w) = None
     \<or> profiles (engine_profiles self) (determine_profile self svc profile_name) = None
     \<or> dry_run"
  shows "snd (apply_hardening env self svc profile_name dry_run w) = w
     \<or> snd (apply_hardening env self svc profile_name dry_run w) = snd (analyze_service env svc w)"
  using assms
  by (auto simp: apply_hardening_def Let_def split: prod.splits option.splits)

text \<open>
  C7: a call of \<open>apply_hardening\<close> that stops before the mutation step (the service is
  excluded, the baseline analysis fails, the resolved profile is unknown, or the call is
  a dry run) leaves every file and every directory as it was, so no override and no
  backup is written and no directory is created, and issues no command other than the
  three queries of the analysis, so no reload and no restart. The excluded, unanalyzable
  and unknown-profile cases return \<open>success = False\<close> with the error text of the case;
  a dry run with a known profile returns \<open>success = True\<close>.
\<close>

theorem apply_hardening_without_mutation:
  assumes "is_excluded self svc \<or> fst (analyze_service env svc w) = None
     \<or> profiles (engine_profiles self) (determine_profile self svc profile_name) = None
     \<or> dry_run"
  shows "files (snd (apply_hardening env self svc profile_name dry_run w)) = files w
     \<and> dirs (snd (apply_hardening env self svc profile_name dry_run w)) = dirs w
     \<and> (\<exists>qs. issued (snd (apply_hardening env self svc profile_name dry_run w)) = issued w @ qs
           \<and> set qs \<subseteq> {security_cmd svc, is_active_cmd svc, is_enabled_cmd svc}
           \<and> daemon_reload_cmd \<notin> set qs \<and> (\<forall>s. restart_cmd s \<notin> set qs))
     \<and> (is_excluded self svc \<longrightarrow>
           apply_hardening env self svc profile_name dry_run w =
             ((result_of svc False)\<lparr>error := Some (Text ''Service is in exclusion list'')\<rparr>, w))
     \<and> (\<not> is_excluded self svc \<and> fst (analyze_service env svc w) = None \<longrightarrow>
           fst (apply_hardening env self svc profile_name dry_run w) =
             (result_of svc False)\<lparr>error := Some (Text ''Failed to analyze service'')\<rparr>)
     \<and> (\<not> is_excluded self svc \<and> fst (analyze_service env svc w) \<noteq> None
          \<and> profiles (engine_profiles self) (determine_profile self svc profile_name) = None \<longrightarrow>
           fst (apply_hardening env self svc profile_name dry_run w) =
             (result_of svc False)
               \<lparr>error := Some (Text (''Unknown profile: '' @ determine_profile self svc profile_name))\<rparr>)
     \<and> (\<not> is_excluded self svc \<and> fst (analyze_service env svc w) \<noteq> None
          \<and> profiles (engine_profiles self) (determine_profile self svc profile_name) \<noteq> None
          \<and> dry_run \<longrightarrow>
           fst (apply_hardening env self svc profile_name dry_run w) =
             (result_of svc True)
               \<lparr>profile_applied := Some (determine_profile self svc profile_name),
                previous_score := exposure_score (the (fst (analyze_service env svc w)))\<rparr>)"
proof -
  let ?w' = "snd (apply_hardening env self svc profile_name dry_run w)"
  have world: "?w' = w \<or> ?w' = snd (analyze_service env svc w)"
    using assms by (rule apply_hardening_no_mutation)
  then have f: "files ?w' = files w" and d: "dirs ?w' = dirs w"
    by auto
  have i: "\<exists>qs. issued ?w' = issued w @ qs
           \<and> set qs \<subseteq> {security_cmd svc, is_active_cmd svc, is_enabled_cmd svc}
           \<and> daemon_reload_cmd \<notin> set qs \<and> (\<forall>s. restart_cmd s \<notin> set qs)"
  proof -
    from world analyze_service_queries_only [of env svc w]
    obtain qs where qs: "issued ?w' = issued w @ qs"
      "set qs \<subseteq> {security_cmd svc, is_active_cmd svc, is_enabled_cmd svc}"
      by fastforce
    from qs(2) queries_are_not_mutations
    have "daemon_reload_cmd \<notin> set qs \<and> (\<forall>s. restart_cmd s \<notin> set qs)"
      by blast
    with qs show ?thesis by blast
  qed
  have r: "(is_excluded self svc \<longrightarrow>
           apply_hardening env self svc profile_name dry_run w =
             ((result_of svc False)\<lparr>error := Some (Text ''Service is in exclusion list'')\<rparr>, w))
     \<and> (\<not> is_excluded self svc \<and> fst (analyze_service env svc w) = None \<longrightarrow>
           fst (apply_hardening env self svc profile_name dry_run w) =
             (result_of svc False)\<lparr>error := Some (Text ''Failed to analyze service'')\<rparr>)
     \<and> (\<not> is_excluded self svc \<and> fst (analyze_service env svc w) \<noteq> None
          \<and> profiles (engine_profiles self) (determine_profile self svc profile_name) = None \<longrightarrow>
           fst (apply_hardening env self svc profile_name dry_run w) =
             (result_of svc False)
               \<lparr>error := Some (Text (''Unknown profile: '' @ determine_profile self svc profile_name))\<rparr>)
     \<and> (\<not> is_excluded self svc \<and> fst (analyze_service env svc w) \<noteq> None
          \<and> profiles (engine_profiles self) (determine_profile self svc profile_name) \<noteq> None
          \<and> dry_run \<longrightarrow>
           fst (apply_hardening env self svc profile_name dry_run w) =
             (result_of svc True)
               \<lparr>profile_applied := Some (determine_profile self svc profile_name),
                previous_score := exposure_score (the (fst (analyze_service env svc w)))\<rparr>)"
    by (auto simp: apply_hardening_def Let_def split: prod.splits option.splits)
  from f d i r show ?thesis by blast
qed

lemma foo_not_excluded: "\<not> is_excluded demo_engine ''foo.service''"
  by (simp add: is_excluded_def demo_engine_def endswith_def startswith_def)

lemma foo_profile: "determine_profile demo_engine ''foo.service'' None = ''system_service''"
  by (simp add: determine_profile_def get_profile_for_service_def demo_engine_def startswith_def)

lemma foo_profile_known:
  "profiles (engine_profiles demo_engine) ''system_service''
     = Some \<lparr>description = ''System'', overrides = demo_overrides\<rparr>"
  by (simp add: demo_engine_def)

lemma foo_analysis:
  "fst (analyze_service summary_env ''foo.service'' w) =
     Some \<lparr>name = ''foo.service'', exposure_score = Some 9.6, exposure_level = Some ''UNSAFE'',
           is_active = True, is_enabled = True, suggested_profile = None\<rparr>"
proof -
  have a: "summary_env (issued w) (security_cmd ''foo.service'') = Inr (Completed 0 summary_report)"
    by (simp add: summary_env_def)
  have b: "summary_env (issued w @ [security_cmd ''foo.service''])
      (is_active_cmd ''foo.service'') = Inr (Completed 0 (''active'' @ [CHR 0x0A]))"
    by (simp add: summary_env_def cmd_defs)
  have c: "summary_env (issued w @ [security_cmd ''foo.service'', is_active_cmd ''foo.service''])
      (is_enabled_cmd ''foo.service'') = Inr (Completed 0 (''enabled'' @ [CHR 0x0A]))"
    by (simp add: summary_env_def cmd_defs)
  have p: "parse_exposure (stdout (Completed 0 summary_report)) = Inr (Some 9.6, Some ''UNSAFE'')"
    by (simp add: parse_exposure_def summary_report_def text_defs)
  show ?thesis
    unfolding analyze_service_completed [OF a b c] p
    by (simp add: py_strip_def is_space_def)
qed

theorem apply_hardening_without_mutation_witness:
  "apply_hardening quiet_env demo_engine ''sshd.service'' None False hardened_world =
     ((result_of ''sshd.service'' False)\<lparr>error := Some (Text ''Service is in exclusion list'')\<rparr>,
      hardened_world)
   \<and> error (fst (apply_hardening no_tool_env demo_engine ''foo.service'' None False hardened_world))
       = Some (Text ''Failed to analyze service'')
   \<and> error (fst (apply_hardening summary_env demo_engine ''foo.service'' (Some ''nonexistent'') False
                  hardened_world))
       = Some (Text ''Unknown profile: nonexistent'')
   \<and> success (fst (apply_hardening summary_env demo_engine ''foo.service'' None True hardened_world))
   \<and> files (snd (apply_hardening summary_env demo_engine ''foo.service'' None True hardened_world))
       = files hardened_world
   \<and> dirs (snd (apply_hardening summary_env demo_engine ''foo.service'' None True hardened_world))
       = dirs hardened_world"
proof -
  have e1: "is_excluded demo_engine ''sshd.service''"
    by (simp add: is_excluded_def demo_engine_def)
  have a2: "fst (analyze_service no_tool_env ''foo.service'' hardened_world) = None"
    by (simp add: analyze_defs no_tool_env_def)
  have a3: "fst (analyze_service summary_env ''foo.service'' hardened_world) \<noteq> None"
    by (simp add: foo_analysis)
  have p3: "determine_profile demo_engine ''foo.service'' (Some ''nonexistent'') = ''nonexistent''"
    by (simp add: determine_profile_def)
  have u3: "profiles (engine_profiles demo_engine) ''nonexistent'' = None"
    by (simp add: demo_engine_def)
  have c1: "apply_hardening quiet_env demo_engine ''sshd.service'' None False hardened_world =
     ((result_of ''sshd.service'' False)\<lparr>error := Some (Text ''Service is in exclusion list'')\<rparr>,
      hardened_world)"
    using apply_hardening_without_mutation
      [of demo_engine "''sshd.service''" quiet_env hardened_world None False] e1
    by blast
  have c2: "fst (apply_hardening no_tool_env demo_engine ''foo.service'' None False hardened_world)
      = (result_of ''foo.service'' False)\<lparr>error := Some (Text ''Failed to analyze service'')\<rparr>"
    using apply_hardening_without_mutation
      [of demo_engine "''foo.service''" no_tool_env hardened_world None False] a2 foo_not_excluded
    by blast
  have c3: "fst (apply_hardening summary_env demo_engine ''foo.service'' (Some ''nonexistent'') False
                  hardened_world)
      = (result_of ''foo.service'' False)
          \<lparr>error := Some (Text (''Unknown profile: '' @ ''nonexistent''))\<rparr>"
    using apply_hardening_without_mutation
      [of demo_engine "''foo.service''" summary_env hardened_world "Some ''nonexistent''" False]
      a3 foo_not_excluded u3
    unfolding p3 by blast
  have c4: "fst (apply_hardening summary_env demo_engine ''foo.service'' None True hardened_world)
      = (result_of ''foo.service'' True)
          \<lparr>profile_applied := Some ''system_service'',
           previous_score := exposure_score
             (the (fst (analyze_service summary_env ''foo.service'' hardened_world)))\<rparr>
     \<and> files (snd (apply_hardening summary_env demo_engine ''foo.service'' None True hardened_world))
       = files hardened_world
     \<and> dirs (snd (apply_hardening summary_env demo_engine ''foo.service'' None True hardened_world))
       = dirs hardened_world"
    using apply_hardening_without_mutation
      [of demo_engine "''foo.service''" summary_env hardened_world None True]
      a3 foo_not_excluded foo_profile_known
    unfolding foo_profile by simp
  show ?thesis
    by (simp add: c1 c2 c3 c4 result_of_def)
qed

lemma analyze_service_frame:
  assumes "analyze_service env svc w = (a, w')"
  shows "files w' = files w" and "dirs w' = dirs w"
  using analyze_service_files [of env svc w] analyze_service_dirs [of env svc w] assms
  by simp_all

lemma final_measure_frame:
  assumes "final_measure env svc pn prev w = (r, w')"
  shows "files w' = files w" and "\<exists>x. r = Inr x \<and> success x"
  using assms analyze_service_frame [of env svc w]
  by (auto simp: final_measure_def result_of_def split: prod.splits)

lemma written_files:
  assumes s1: "(if path_exists ov w then copy2 ov bk w else io_return () w) = (Inr u1, w1)"
    and s2: "mkdir d w1 = (Inr u2, w2)"
    and s3: "write_text ov content w2 = (Inr u3, w3)"
  shows "files w3 =
     (if files w ov = None then files w else (files w)(bk := files w ov))(ov \<mapsto> content)"
  using assms
  by (auto simp: path_exists_def copy2_def io_return_def mkdir_def write_text_def
      split: if_splits option.splits)

lemma mutate_success:
  assumes "mutate env self svc pn profile a w = (Inr r, w')" and "success r"
  shows "files w' =
     (if files w (override_file self svc) = None then files w
      else (files w)(backup_file_of self svc := files w (override_file self svc)))
     (override_file self svc \<mapsto> header pn @ to_systemd_config (overrides profile))"
  using assms(1) unfolding mutate_def
proof (elim io_bind_InrE)
  fix u1 w1 u2 w2 u3 w3 c4 w4
  assume s1: "(if path_exists (override_file self svc) w
           then copy2 (override_file self svc) (backup_file_of self svc) w
           else io_return () w) = (Inr u1, w1)"
    and s2: "mkdir (override_dir self svc) w1 = (Inr u2, w2)"
    and s3: "write_text (override_file self svc)
           (header pn @ to_systemd_config (overrides profile)) w2 = (Inr u3, w3)"
    and s4: "subprocess_run env daemon_reload_cmd True w3 = (Inr c4, w4)"
    and s5: "(if is_active a
          then io_bind (subprocess_run env (restart_cmd svc) True)
                (\<lambda>_. io_bind (subprocess_run env (is_active_cmd svc) False)
                       (\<lambda>status.
                           if py_strip (stdout status) \<noteq> ''active''
                           then \<lambda>w. (Inr (result_of svc False
                                           \<lparr>profile_applied := Some pn,
                                              previous_score := exposure_score a,
                                              rollback_performed := True,
                                              error := Some (Text ''Service failed health check after hardening'')\<rparr>),
                                      rollback env self svc (Some (backup_file_of self svc)) w)
                           else final_measure env svc pn (exposure_score a)))
          else final_measure env svc pn (exposure_score a)) w4 = (Inr r, w')"
  have f3: "files w3 =
     (if files w (override_file self svc) = None then files w
      else (files w)(backup_file_of self svc := files w (override_file self svc)))
     (override_file self svc \<mapsto> header pn @ to_systemd_config (overrides profile))"
    using s1 s2 s3 by (rule written_files)
  have f4: "files w4 = files w3"
    using s4 by (rule subprocess_run_frame)
  have "files w' = files w4"
  proof (cases "is_active a")
    case False
    with s5 have "final_measure env svc pn (exposure_score a) w4 = (Inr r, w')" by simp
    then show ?thesis by (rule final_measure_frame)
  next
    case True
    with s5 obtain c5 w5 c6 w6 where
      s6: "subprocess_run env (restart_cmd svc) True w4 = (Inr c5, w5)"
      and s7: "subprocess_run env (is_active_cmd svc) False w5 = (Inr c6, w6)"
      and s8: "(if py_strip (stdout c6) \<noteq> ''active''
           then \<lambda>w. (Inr (result_of svc False
                           \<lparr>profile_applied := Some pn,
                              previous_score := exposure_score a,
                              rollback_performed := True,
                              error := Some (Text ''Service failed health check after hardening'')\<rparr>),
                      rollback env self svc (Some (backup_file_of self svc)) w)
           else final_measure env svc pn (exposure_score a)) w6 = (Inr r, w')"
      by (auto elim!: io_bind_InrE)
    have healthy: "py_strip (stdout c6) = ''active''"
    proof (rule ccontr)
      assume "py_strip (stdout c6) \<noteq> ''active''"
      with s8 have "\<not> success r" by (auto simp: result_of_def)
      with assms(2) show False by simp
    qed
    with s8 have "final_measure env svc pn (exposure_score a) w6 = (Inr r, w')" by simp
    then have "files w' = files w6" by (rule final_measure_frame)
    also have "\<dots> = files w5" using s7 by (rule subprocess_run_frame)
    also have "\<dots> = files w4" using s6 by (rule subprocess_run_frame)
    finally show ?thesis .
  qed
  with f3 f4 show ?thesis by simp
qed

lemma apply_hardening_success:
  assumes "apply_hardening env self svc pn False w = (r, w')" and "success r"
  shows "\<exists>profile. profiles (engine_profiles self) (determine_profile self svc pn) = Some profile
     \<and> files w' =
         (if files w (override_file self svc) = None then files w
          else (files w)(backup_file_of self svc := files w (override_file self svc)))
         (override_file self svc \<mapsto>
            header (determine_profile self svc pn) @ to_systemd_config (overrides profile))"
proof -
  have ne: "\<not> is_excluded self svc"
    using assms by (auto simp: apply_hardening_def result_of_def)
  obtain a0 w1 where an: "analyze_service env svc w = (a0, w1)"
    by (cases "analyze_service env svc w")
  from assms ne an obtain a where a: "a0 = Some a"
    by (cases a0) (auto simp: apply_hardening_def result_of_def)
  from assms ne an a obtain profile where
    p: "profiles (engine_profiles self) (determine_profile self svc pn) = Some profile"
    by (cases "profiles (engine_profiles self) (determine_profile self svc pn)")
      (auto simp: apply_hardening_def result_of_def)
  obtain mr w2 where mw:
    "mutate env self svc (determine_profile self svc pn) profile a w1 = (mr, w2)"
    by (cases "mutate env self svc (determine_profile self svc pn) profile a w1")
  from assms ne an a p mw have "mr = Inr r \<and> w2 = w'"
    by (cases mr) (auto simp: apply_hardening_def result_of_def)
  with mw have "mutate env self svc (determine_profile self svc pn) profile a w1 = (Inr r, w')"
    by simp
  from mutate_success [OF this assms(2)] analyze_service_frame(1) [OF an] p
  show ?thesis by simp
qed

lemma exclude_none_distinct:
  "distinct (map fst kvs) \<Longrightarrow> distinct (map fst (exclude_none kvs))"
proof (induction kvs rule: exclude_none.induct)
  case (3 k v kvs)
  then show ?case
    by (auto simp: exclude_none_set image_iff) (metis fst_conv)
qed simp_all

text \<open>
  C9: when the same profile is applied to a service twice in succession and both
  operations succeed, the override file has the same content after the first and after
  the second: the header naming the profile followed by the rendered directives of the
  profile, each directive at most once. The second operation first copies the override
  that the first one wrote to the backup file, so the backup has that same content.
\<close>

theorem reapplying_profile_is_idempotent:
  assumes "apply_hardening env1 self svc pn False w = (r1, w1)" and "success r1"
    and "apply_hardening env2 self svc pn False w1 = (r2, w2)" and "success r2"
  shows "\<exists>profile. profiles (engine_profiles self) (determine_profile self svc pn) = Some profile
     \<and> files w1 (override_file self svc) =
         Some (header (determine_profile self svc pn) @ to_systemd_config (overrides profile))
     \<and> files w2 (override_file self svc) = files w1 (override_file self svc)
     \<and> files w2 (backup_file_of self svc) = files w1 (override_file self svc)
     \<and> distinct (map fst (exclude_none (model_dump (overrides profile))))"
proof -
  from apply_hardening_success [OF assms(1,2)] obtain profile where
    p: "profiles (engine_profiles self) (determine_profile self svc pn) = Some profile"
    and f1: "files w1 =
         (if files w (override_file self svc) = None then files w
          else (files w)(backup_file_of self svc := files w (override_file self svc)))
         (override_file self svc \<mapsto>
            header (determine_profile self svc pn) @ to_systemd_config (overrides profile))"
    by blast
  from apply_hardening_success [OF assms(3,4)] p have
    f2: "files w2 =
         (if files w1 (override_file self svc) = None then files w1
          else (files w1)(backup_file_of self svc := files w1 (override_file self svc)))
         (override_file self svc \<mapsto>
            header (determine_profile self svc pn) @ to_systemd_config (overrides profile))"
    by simp
  have o1: "files w1 (override_file self svc) =
         Some (header (determine_profile self svc pn) @ to_systemd_config (overrides profile))"
    unfolding f1 by simp
  have o2: "files w2 (override_file self svc) = files w1 (override_file self svc)"
    unfolding f2 o1 by simp
  have b2: "files w2 (backup_file_of self svc) = files w1 (override_file self svc)"
    using override_neq_backup [of self svc] unfolding f2 o1 by simp
  have d: "distinct (map fst (exclude_none (model_dump (overrides profile))))"
    using model_dump_distinct by (rule exclude_none_distinct)
  from p o1 o2 b2 d show ?thesis by blast
qed

lemma mutate_healthy:
  assumes "env (issued w) daemon_reload_cmd = Inr c1" and "returncode c1 = 0"
    and "env (issued w @ [daemon_reload_cmd]) (restart_cmd svc) = Inr c2" and "returncode c2 = 0"
    and "env (issued w @ [daemon_reload_cmd, restart_cmd svc]) (is_active_cmd svc) = Inr status"
    and "py_strip (stdout status) = ''active''"
  shows "\<exists>r. fst (mutate env self svc pn profile a w) = Inr r \<and> success r"
  using assms
  by (auto simp: mutate_def io_bind_def io_return_def path_exists_def copy2_def mkdir_def
      write_text_def subprocess_run_def Let_def final_measure_def result_of_def
      split: option.splits prod.splits)

lemma foo_apply_succeeds:
  "success (fst (apply_hardening summary_env demo_engine ''foo.service'' None False w))"
proof -
  obtain a0 w1 where an: "analyze_service summary_env ''foo.service'' w = (a0, w1)"
    by (cases "analyze_service summary_env ''foo.service'' w")
  with foo_analysis [of w] obtain a where a: "a0 = Some a"
    by simp
  have q: "py_strip (stdout (Completed 0 (''active'' @ [CHR 0x0A]))) = ''active''"
    by (simp add: py_strip_def is_space_def)
  have "\<exists>r. fst (mutate summary_env demo_engine ''foo.service'' ''system_service''
           \<lparr>description = ''System'', overrides = demo_overrides\<rparr> a w1) = Inr r \<and> success r"
  proof (rule mutate_healthy)
    show "summary_env (issued w1) daemon_reload_cmd = Inr (Completed 0 [])"
      by (simp add: summary_env_def cmd_defs)
    show "returncode (Completed 0 []) = 0" by simp
    show "summary_env (issued w1 @ [daemon_reload_cmd]) (restart_cmd ''foo.service'')
        = Inr (Completed 0 [])"
      by (simp add: summary_env_def cmd_defs)
    show "summary_env (issued w1 @ [daemon_reload_cmd, restart_cmd ''foo.service''])
        (is_active_cmd ''foo.service'') = Inr (Completed 0 (''active'' @ [CHR 0x0A]))"
      by (simp add: summary_env_def cmd_defs)
    show "py_strip (stdout (Completed 0 (''active'' @ [CHR 0x0A]))) = ''active''"
      by (rule q)
  qed simp
  then obtain r w2 where "mutate summary_env demo_engine ''foo.service'' ''system_service''
           \<lparr>description = ''System'', overrides = demo_overrides\<rparr> a w1 = (Inr r, w2)" "success r"
    by (metis prod.collapse)
  then show ?thesis
    by (simp add: apply_hardening_def foo_not_excluded an a foo_profile foo_profile_known)
qed

theorem reapplying_profile_is_idempotent_witness:
  "files (snd (apply_hardening summary_env demo_engine ''foo.service'' None False hardened_world))
     (override_file demo_engine ''foo.service'')
     = Some (header ''system_service'' @ to_systemd_config demo_overrides)
   \<and> files (snd (apply_hardening summary_env demo_engine ''foo.service'' None False
        (snd (apply_hardening summary_env demo_engine ''foo.service'' None False hardened_world))))
     (override_file demo_engine ''foo.service'')
     = Some (header ''system_service'' @ to_systemd_config demo_overrides)
   \<and> files (snd (apply_hardening summary_env demo_engine ''foo.service'' None False
        (snd (apply_hardening summary_env demo_engine ''foo.service'' None False hardened_world))))
     (backup_file_of demo_engine ''foo.service'')
     = Some (header ''system_service'' @ to_systemd_config demo_overrides)"
proof -
  let ?a1 = "apply_hardening summary_env demo_engine ''foo.service'' None False hardened_world"
  let ?a2 = "apply_hardening summary_env demo_engine ''foo.service'' None False (snd ?a1)"
  have e1: "?a1 = (fst ?a1, snd ?a1)" and e2: "?a2 = (fst ?a2, snd ?a2)"
    by simp_all
  have s1: "success (fst ?a1)" and s2: "success (fst ?a2)"
    by (rule foo_apply_succeeds)+
  from reapplying_profile_is_idempotent [OF e1 s1 e2 s2]
  show ?thesis
    unfolding foo_profile foo_profile_known by auto
qed

section \<open>Rollback after a failed health check\<close>

lemma mutate_failed_health_check:
  assumes "is_active a"
    and "env (issued w) daemon_reload_cmd = Inr c1" and "returncode c1 = 0"
    and "env (issued w @ [daemon_reload_cmd]) (restart_cmd svc) = Inr c2" and "returncode c2 = 0"
    and "env (issued w @ [daemon_reload_cmd, restart_cmd svc]) (is_active_cmd svc) = Inr status"
    and "py_strip (stdout status) \<noteq> ''active''"
  shows "fst (mutate env self svc pn profile a w) =
           Inr ((result_of svc False)
                  \<lparr>profile_applied := Some pn,
                   previous_score := exposure_score a,
                   rollback_performed := True,
                   error := Some (Text ''Service failed health check after hardening'')\<rparr>)"
    and "files (snd (mutate env self svc pn profile a w)) (override_file self svc) =
           (case files w (override_file self svc) of
              Some content \<Rightarrow> Some content
            | None \<Rightarrow> files w (backup_file_of self svc))"
  using assms override_neq_backup [of self svc]
  by (auto simp: mutate_def io_bind_def io_return_def path_exists_def copy2_def mkdir_def
      write_text_def subprocess_run_def Let_def rollback_files split: option.splits)

lemma analyze_service_completed_world:
  assumes "env (issued w) (security_cmd svc) = Inr result"
    and "env (issued w @ [security_cmd svc]) (is_active_cmd svc) = Inr st"
    and "env (issued w @ [security_cmd svc, is_active_cmd svc]) (is_enabled_cmd svc) = Inr en"
    and "parse_exposure (stdout result) = Inr p"
  shows "issued (snd (analyze_service env svc w))
     = issued w @ [security_cmd svc, is_active_cmd svc, is_enabled_cmd svc]"
  using assms
  by (simp add: analyze_service_def analyze_body_def io_bind_def io_return_def subprocess_run_def
      split: sum.splits prod.splits)

lemma failed_health_check_rolls_back:
  assumes "reaches_failed_health_check env self svc pn w"
  shows "\<not> success (fst (apply_hardening env self svc pn False w))
     \<and> rollback_performed (fst (apply_hardening env self svc pn False w))
     \<and> error (fst (apply_hardening env self svc pn False w))
         = Some (Text ''Service failed health check after hardening'')
     \<and> files (snd (apply_hardening env self svc pn False w)) (override_file self svc) =
           (case files w (override_file self svc) of
              Some content \<Rightarrow> Some content
            | None \<Rightarrow> files w (backup_file_of self svc))"
proof -
  obtain a0 w1 where an: "analyze_service env svc w = (a0, w1)"
    by (cases "analyze_service env svc w")
  from assms an obtain a where a: "a0 = Some a"
    by (cases a0) (simp_all add: reaches_failed_health_check_def)
  from assms an a obtain profile where
    p: "profiles (engine_profiles self) (determine_profile self svc pn) = Some profile"
    by (auto simp: reaches_failed_health_check_def)
  from assms an a have ne: "\<not> is_excluded self svc" and act: "is_active a"
    by (simp_all add: reaches_failed_health_check_def)
  from assms an a obtain c1 where c1: "env (issued w1) daemon_reload_cmd = Inr c1" "returncode c1 = 0"
    by (auto simp: reaches_failed_health_check_def Let_def split: sum.splits)
  from assms an a c1 obtain c2 where
    c2: "env (issued w1 @ [daemon_reload_cmd]) (restart_cmd svc) = Inr c2" "returncode c2 = 0"
    by (auto simp: reaches_failed_health_check_def Let_def split: sum.splits)
  from assms an a c1 c2 obtain status where
    c3: "env (issued w1 @ [daemon_reload_cmd, restart_cmd svc]) (is_active_cmd svc) = Inr status"
      "py_strip (stdout status) \<noteq> ''active''"
    by (auto simp: reaches_failed_health_check_def Let_def split: sum.splits)
  let ?m = "mutate env self svc (determine_profile self svc pn) profile a w1"
  note m = mutate_failed_health_check [OF act c1 c2 c3, of self "determine_profile self svc pn" profile]
  have f1: "files w1 = files w"
    using an by (rule analyze_service_frame)
  obtain mr w2 where mw: "?m = (mr, w2)"
    by (cases ?m)
  with m have mr: "mr = Inr ((result_of svc False)
                  \<lparr>profile_applied := Some (determine_profile self svc pn),
                   previous_score := exposure_score a,
                   rollback_performed := True,
                   error := Some (Text ''Service failed health check after hardening'')\<rparr>)"
    and f2: "files w2 (override_file self svc) =
           (case files w1 (override_file self svc) of
              Some content \<Rightarrow> Some content
            | None \<Rightarrow> files w1 (backup_file_of self svc))"
    by simp_all
  have "apply_hardening env self svc pn False w =
      ((result_of svc False)
                  \<lparr>profile_applied := Some (determine_profile self svc pn),
                   previous_score := exposure_score a,
                   rollback_performed := True,
                   error := Some (Text ''Service failed health check after hardening'')\<rparr>, w2)"
    by (simp add: apply_hardening_def ne an a p mw mr)
  then show ?thesis
    using f2 [unfolded f1] by (simp add: result_of_def)
qed

lemma rollback_safety_without_leftover_backup:
  assumes "reaches_failed_health_check env self svc pn w"
    and "files w (override_file self svc) = None \<longrightarrow> files w (backup_file_of self svc) = None"
  shows "files (snd (apply_hardening env self svc pn False w)) (override_file self svc)
     = files w (override_file self svc)"
  using failed_health_check_rolls_back [OF assms(1)] assms(2)
  by (auto split: option.splits)

lemma foo_unhealthy:
  assumes "issued w = []"
  shows "reaches_failed_health_check unhealthy_env demo_engine ''foo.service'' None w"
proof -
  have a: "unhealthy_env (issued w) (security_cmd ''foo.service'') = Inr (Completed 0 summary_report)"
    by (simp add: unhealthy_env_def)
  have b: "unhealthy_env (issued w @ [security_cmd ''foo.service''])
      (is_active_cmd ''foo.service'') = Inr (Completed 0 (''active'' @ [CHR 0x0A]))"
    by (simp add: unhealthy_env_def cmd_defs assms)
  have c: "unhealthy_env (issued w @ [security_cmd ''foo.service'', is_active_cmd ''foo.service''])
      (is_enabled_cmd ''foo.service'') = Inr (Completed 0 (''enabled'' @ [CHR 0x0A]))"
    by (simp add: unhealthy_env_def cmd_defs)
  have p: "parse_exposure (stdout (Completed 0 summary_report)) = Inr (Some 9.6, Some ''UNSAFE'')"
    by (simp add: parse_exposure_def summary_report_def text_defs)
  have an: "fst (analyze_service unhealthy_env ''foo.service'' w) =
     Some \<lparr>name = ''foo.service'', exposure_score = Some 9.6, exposure_level = Some ''UNSAFE'',
           is_active = True, is_enabled = True, suggested_profile = None\<rparr>"
    unfolding analyze_service_completed [OF a b c] p
    by (simp add: py_strip_def is_space_def)
  have h: "issued (snd (analyze_service unhealthy_env ''foo.service'' w))
     = [security_cmd ''foo.service'', is_active_cmd ''foo.service'', is_enabled_cmd ''foo.service'']"
    using analyze_service_completed_world [OF a b c p] assms by simp
  have q: "py_strip (''failed'' @ [CHR 0x0A]) \<noteq> ''active''"
    by (simp add: py_strip_def is_space_def)
  show ?thesis
    unfolding reaches_failed_health_check_def an h foo_profile
    using q by (simp add: foo_not_excluded foo_profile_known unhealthy_env_def cmd_defs)
qed

text \<open>
  C1: after a failed health check the override file has its content from before the
  operation, or is absent if none existed before. Here foo.service has no override
  before the operation, but the backup file that an earlier apply wrote is still in the
  directory (revert removes the override and leaves the backup). The operation reaches the
  failed health check and reports the rollback, and the rollback, finding that backup
  file, copies it to override.conf: the override file exists afterwards, with the old
  content.
\<close>

theorem leftover_backup_restored_by_rollback:
  "reaches_failed_health_check unhealthy_env demo_engine ''foo.service'' None stale_backup_world
   \<and> files stale_backup_world (override_file demo_engine ''foo.service'') = None
   \<and> rollback_performed
        (fst (apply_hardening unhealthy_env demo_engine ''foo.service'' None False stale_backup_world))
   \<and> files (snd (apply_hardening unhealthy_env demo_engine ''foo.service'' None False
                   stale_backup_world))
        (override_file demo_engine ''foo.service'') = Some ''old''"
proof -
  have i: "issued stale_backup_world = []"
    by (simp add: stale_backup_world_def)
  have r: "reaches_failed_health_check unhealthy_env demo_engine ''foo.service'' None
      stale_backup_world"
    using i by (rule foo_unhealthy)
  have o: "files stale_backup_world (override_file demo_engine ''foo.service'') = None"
    by (simp add: stale_backup_world_def override_file_def override_dir_def demo_engine_def)
  have b: "files stale_backup_world (backup_file_of demo_engine ''foo.service'') = Some ''old''"
    by (simp add: stale_backup_world_def backup_file_of_def override_dir_def demo_engine_def)
  from failed_health_check_rolls_back [OF r] r o b show ?thesis
    by simp
qed

end
